theory Spec2Isabelle
  imports Complex_Main "HOL-Library.Multiset"
begin

section \<open>Data model\<close>

text \<open>
  Rows of the record store, after \<^verbatim>\<open>database.types\<close> and the SQL migrations. Identifiers
  are UUID strings. A timestamp is the number of milliseconds since the epoch, that is what
  \<^verbatim>\<open>new Date(iso).getTime()\<close> gives back for a string written by \<^verbatim>\<open>toISOString()\<close>.
  A nullable column is an \<open>option\<close>. The session status column carries the check
  \<^verbatim>\<open>status IN ('waiting', 'playing', 'finished')\<close>. Columns that none of the actions
  below reads or writes (names, join code, settings, avatars, creation stamps) are left out.
\<close>

type_synonym uuid = string
type_synonym timestamp = int

datatype status = Waiting | Playing | Finished

record session =
  sess_id :: uuid
  host_id :: uuid
  status :: status
  current_song_index :: "int option"
  current_song_started_at :: "timestamp option"
  last_activity_at :: "timestamp option"
  infinite_mode :: "bool option"
  min_queue_size :: "int option"

record participant =
  part_id :: uuid
  part_session_id :: uuid
  user_name :: "string option"
  is_host :: "bool option"
  joined_at :: timestamp
  karma :: "int option"

record song =
  song_id :: uuid
  song_session_id :: uuid
  title :: string
  artist :: string
  album_art :: "string option"
  duration :: int
  source :: string
  source_id :: string
  added_by :: uuid
  position :: int

record score =
  score_id :: uuid
  score_session_id :: uuid
  score_song_id :: uuid
  score_participant_id :: uuid
  rating :: int

record skip_vote =
  sv_id :: uuid
  sv_session_id :: uuid
  sv_song_id :: uuid
  sv_participant_id :: uuid

section \<open>Skip-vote quorum (use-skip-voting.ts)\<close>

text \<open>
  \<^verbatim>\<open>const skipThreshold = Math.ceil(participants.length * 0.5)\<close>. The product is exact in
  double precision for every array length, so it is taken over the reals.
\<close>

definition skipThreshold :: "participant list \<Rightarrow> int" where
  "skipThreshold participants = \<lceil>real (length participants) * 0.5\<rceil>"

text \<open>
  \<^verbatim>\<open>songSkipVotes = skipVotes.filter((v) => v.song_id === currentSong.id)\<close> and the test
  \<^verbatim>\<open>songSkipVotes.length >= skipThreshold && songSkipVotes.length > 0\<close>.
\<close>

definition songSkipVotes :: "skip_vote list \<Rightarrow> song \<Rightarrow> skip_vote list" where
  "songSkipVotes skipVotes currentSong =
     filter (\<lambda>v. sv_song_id v = song_id currentSong) skipVotes"

definition thresholdReached :: "skip_vote list \<Rightarrow> song \<Rightarrow> participant list \<Rightarrow> bool" where
  "thresholdReached skipVotes currentSong participants =
     (int (length (songSkipVotes skipVotes currentSong)) \<ge> skipThreshold participants
      \<and> length (songSkipVotes skipVotes currentSong) > 0)"

text \<open>
  The auto-skip effect of the hook: it answers whether \<^verbatim>\<open>nextSong()\<close> is invoked. The
  guard is \<^verbatim>\<open>!isHost || !currentSong || !session || session.status !== 'playing' ||
  isCheckingThreshold\<close>.
\<close>

definition autoSkip ::
  "bool \<Rightarrow> song option \<Rightarrow> session option \<Rightarrow> bool \<Rightarrow> skip_vote list \<Rightarrow> participant list \<Rightarrow> bool"
where
  "autoSkip isHost currentSong sess isCheckingThreshold skipVotes participants =
     (case (currentSong, sess) of
        (Some cs, Some s) \<Rightarrow>
          if \<not> isHost \<or> status s \<noteq> Playing \<or> isCheckingThreshold then False
          else thresholdReached skipVotes cs participants
      | _ \<Rightarrow> False)"

section \<open>Playback clock (youtube-player.tsx, song-progress-bar.tsx)\<close>

text \<open>
  \<^verbatim>\<open>getExpectedPlaybackTime\<close> of the player component. \<^verbatim>\<open>sessionStartedAt\<close> is absent
  (\<open>None\<close>) or a timestamp; \<open>now\<close> is the value of \<^verbatim>\<open>Date.now()\<close>. The division by 1000 is
  the real quotient and \<^verbatim>\<open>Math.floor\<close> is \<open>\<lfloor>_\<rfloor>\<close>.
\<close>

definition getExpectedPlaybackTime :: "timestamp option \<Rightarrow> int \<Rightarrow> timestamp \<Rightarrow> int" where
  "getExpectedPlaybackTime sessionStartedAt startTime now =
     (case sessionStartedAt of
        None \<Rightarrow> startTime
      | Some startTime_ms \<Rightarrow>
          (let elapsed = \<lfloor>real_of_int (now - startTime_ms) / 1000\<rfloor>
           in max 0 elapsed))"

text \<open>
  The progress bar's \<^verbatim>\<open>calculateProgress\<close>: the displayed elapsed seconds are
  \<^verbatim>\<open>Math.max(0, Math.min(elapsedSeconds, duration))\<close>.
\<close>

definition clampedElapsed :: "int \<Rightarrow> timestamp \<Rightarrow> timestamp \<Rightarrow> int" where
  "clampedElapsed dur startedAt now =
     (let elapsedSeconds = \<lfloor>real_of_int (now - startedAt) / 1000\<rfloor>
      in max 0 (min elapsedSeconds dur))"

section \<open>The record store\<close>

text \<open>
  The record store is the external Postgres collaborator reached through the Supabase
  client. It is modelled as tables held in lists, enforcing the two \<^verbatim>\<open>UNIQUE\<close>
  constraints of the migrations: \<^verbatim>\<open>UNIQUE(song_id, participant_id)\<close> on \<^verbatim>\<open>scores\<close> and
  \<^verbatim>\<open>UNIQUE(session_id, song_id, participant_id)\<close> on \<^verbatim>\<open>skip_votes\<close>. A violated
  constraint answers with the Postgres code \<^verbatim>\<open>23505\<close>; \<^verbatim>\<open>.single()\<close> on a result that is
  not exactly one row answers with \<^verbatim>\<open>PGRST116\<close>. Row identifiers come from
  \<^verbatim>\<open>gen_random_uuid()\<close>; the operations below receive the generated identifier as the
  argument \<open>new_id\<close>. Transport failures and foreign keys are outside the model.
\<close>

datatype error = StoreError string | JsError string

datatype karma_reason = AddedSong string | VotedOnSong | SongReceived string int

record karma_entry =
  ke_participant_id :: uuid
  ke_session_id :: uuid
  ke_amount :: int
  ke_reason :: karma_reason

record database =
  sessions :: "session list"
  participants_tbl :: "participant list"
  songs_tbl :: "song list"
  scores_tbl :: "score list"
  skip_votes_tbl :: "skip_vote list"
  karma_history :: "karma_entry list"
  force_plays_tbl :: "(uuid \<times> uuid \<times> uuid) list"

text \<open>A \<^verbatim>\<open>Partial<Session>\<close> as the store actions build it: an absent key is \<open>None\<close>.\<close>

record session_patch =
  upd_status :: "status option"
  upd_current_song_index :: "int option"
  upd_current_song_started_at :: "timestamp option"
  upd_last_activity_at :: "timestamp option"
  upd_infinite_mode :: "bool option"

definition no_updates :: session_patch where
  "no_updates = \<lparr>upd_status = None, upd_current_song_index = None,
     upd_current_song_started_at = None, upd_last_activity_at = None,
     upd_infinite_mode = None\<rparr>"

definition apply_patch :: "session \<Rightarrow> session_patch \<Rightarrow> session" where
  "apply_patch s p =
     s\<lparr>status := (case upd_status p of None \<Rightarrow> status s | Some v \<Rightarrow> v),
       current_song_index :=
         (case upd_current_song_index p of None \<Rightarrow> current_song_index s | Some v \<Rightarrow> Some v),
       current_song_started_at :=
         (case upd_current_song_started_at p of
            None \<Rightarrow> current_song_started_at s | Some v \<Rightarrow> Some v),
       last_activity_at :=
         (case upd_last_activity_at p of None \<Rightarrow> last_activity_at s | Some v \<Rightarrow> Some v),
       infinite_mode :=
         (case upd_infinite_mode p of None \<Rightarrow> infinite_mode s | Some v \<Rightarrow> Some v)\<rparr>"

text \<open>\<^verbatim>\<open>from('sessions').select('*').eq('id', sessionId).single()\<close>\<close>

definition select_session :: "database \<Rightarrow> uuid \<Rightarrow> error + session" where
  "select_session d sid =
     (case filter (\<lambda>s. sess_id s = sid) (sessions d) of
        [s] \<Rightarrow> Inr s
      | _ \<Rightarrow> Inl (StoreError ''PGRST116''))"

text \<open>
  \<^verbatim>\<open>from('sessions').update(patch).eq('id', id).select().single()\<close>; \<^verbatim>\<open>id\<close> is the
  primary key, so the filter finds one row or none.
\<close>

definition update_session ::
  "database \<Rightarrow> uuid \<Rightarrow> session_patch \<Rightarrow> (error + session) \<times> database"
where
  "update_session d sid p =
     (case filter (\<lambda>s. sess_id s = sid) (sessions d) of
        [s] \<Rightarrow>
          (Inr (apply_patch s p),
           d\<lparr>sessions := map (\<lambda>r. if sess_id r = sid then apply_patch r p else r) (sessions d)\<rparr>)
      | _ \<Rightarrow> (Inl (StoreError ''PGRST116''), d))"

text \<open>
  The filtered reads, in the order the store actions ask for:
  participants by \<^verbatim>\<open>joined_at\<close>, songs by \<^verbatim>\<open>position\<close>, both ascending.
\<close>

definition select_participants :: "database \<Rightarrow> uuid \<Rightarrow> participant list" where
  "select_participants d sid =
     sort_key joined_at (filter (\<lambda>p. part_session_id p = sid) (participants_tbl d))"

definition select_songs :: "database \<Rightarrow> uuid \<Rightarrow> song list" where
  "select_songs d sid =
     sort_key position (filter (\<lambda>s. song_session_id s = sid) (songs_tbl d))"

definition select_scores :: "database \<Rightarrow> uuid \<Rightarrow> score list" where
  "select_scores d sid = filter (\<lambda>s. score_session_id s = sid) (scores_tbl d)"

definition select_skip_votes :: "database \<Rightarrow> uuid \<Rightarrow> skip_vote list" where
  "select_skip_votes d sid = filter (\<lambda>v. sv_session_id v = sid) (skip_votes_tbl d)"

text \<open>
  The rows of \<^verbatim>\<open>skip_votes\<close> under one key of its \<^verbatim>\<open>UNIQUE\<close> constraint, and the read
  \<^verbatim>\<open>from('skip_votes').select('id').eq('session_id', ..).eq('song_id', ..)
  .eq('participant_id', ..)\<close>.
\<close>

definition skip_vote_rows :: "database \<Rightarrow> uuid \<Rightarrow> uuid \<Rightarrow> uuid \<Rightarrow> skip_vote list" where
  "skip_vote_rows d sid songId pid =
     filter (\<lambda>v. sv_session_id v = sid \<and> sv_song_id v = songId \<and> sv_participant_id v = pid)
            (skip_votes_tbl d)"

definition select_skip_vote_ids :: "database \<Rightarrow> uuid \<Rightarrow> uuid \<Rightarrow> uuid \<Rightarrow> uuid list" where
  "select_skip_vote_ids d sid songId pid = map sv_id (skip_vote_rows d sid songId pid)"

text \<open>What the constraint maintains: no two rows of \<^verbatim>\<open>skip_votes\<close> share a key.\<close>

definition skip_votes_unique :: "database \<Rightarrow> bool" where
  "skip_votes_unique d =
     distinct (map (\<lambda>v. (sv_session_id v, sv_song_id v, sv_participant_id v)) (skip_votes_tbl d))"

text \<open>The rows of \<^verbatim>\<open>scores\<close> under one key of its \<^verbatim>\<open>UNIQUE\<close> constraint.\<close>

definition score_rows :: "database \<Rightarrow> uuid \<Rightarrow> uuid \<Rightarrow> score list" where
  "score_rows d songId pid =
     filter (\<lambda>r. score_song_id r = songId \<and> score_participant_id r = pid) (scores_tbl d)"

text \<open>Inserts. The argument row's identifier is not read: the store assigns \<open>new_id\<close>.\<close>

definition insert_score :: "database \<Rightarrow> uuid \<Rightarrow> score \<Rightarrow> (error + score) \<times> database" where
  "insert_score d new_id sc =
     (if score_rows d (score_song_id sc) (score_participant_id sc) \<noteq> []
      then (Inl (StoreError ''23505''), d)
      else (let row = sc\<lparr>score_id := new_id\<rparr>
            in (Inr row, d\<lparr>scores_tbl := scores_tbl d @ [row]\<rparr>)))"

definition insert_skip_vote ::
  "database \<Rightarrow> uuid \<Rightarrow> uuid \<Rightarrow> uuid \<Rightarrow> uuid \<Rightarrow> (error + skip_vote) \<times> database"
where
  "insert_skip_vote d new_id sid songId pid =
     (if skip_vote_rows d sid songId pid \<noteq> []
      then (Inl (StoreError ''23505''), d)
      else (let row = \<lparr>sv_id = new_id, sv_session_id = sid, sv_song_id = songId,
                        sv_participant_id = pid\<rparr>
            in (Inr row, d\<lparr>skip_votes_tbl := skip_votes_tbl d @ [row]\<rparr>)))"

definition insert_song :: "database \<Rightarrow> uuid \<Rightarrow> song \<Rightarrow> (error + song) \<times> database" where
  "insert_song d new_id sg =
     (let row = sg\<lparr>song_id := new_id\<rparr>
      in (Inr row, d\<lparr>songs_tbl := songs_tbl d @ [row]\<rparr>))"

text \<open>\<^verbatim>\<open>from('songs').update({ position }).eq('id', id)\<close>\<close>

definition update_song_position :: "database \<Rightarrow> uuid \<Rightarrow> int \<Rightarrow> error option \<times> database" where
  "update_song_position d sid pos =
     (None, d\<lparr>songs_tbl := map (\<lambda>s. if song_id s = sid then s\<lparr>position := pos\<rparr> else s)
                                (songs_tbl d)\<rparr>)"

definition insert_karma_history :: "database \<Rightarrow> karma_entry \<Rightarrow> error option \<times> database" where
  "insert_karma_history d e = (None, d\<lparr>karma_history := karma_history d @ [e]\<rparr>)"

definition update_participant_karma :: "database \<Rightarrow> uuid \<Rightarrow> int \<Rightarrow> error option \<times> database" where
  "update_participant_karma d pid k =
     (None, d\<lparr>participants_tbl :=
                 map (\<lambda>p. if part_id p = pid then p\<lparr>karma := Some k\<rparr> else p)
                     (participants_tbl d)\<rparr>)"

text \<open>\<^verbatim>\<open>from('force_plays').insert([{ session_id, participant_id, song_id }])\<close>\<close>

definition insert_force_play :: "database \<Rightarrow> uuid \<Rightarrow> uuid \<Rightarrow> uuid \<Rightarrow> error option \<times> database" where
  "insert_force_play d sid pid songId =
     (None, d\<lparr>force_plays_tbl := force_plays_tbl d @ [(sid, pid, songId)]\<rparr>)"

section \<open>Client state, broadcasts and the world\<close>

text \<open>
  The client-side store (\<^verbatim>\<open>useSessionStore\<close>): \<open>realtime\<close> says whether the realtime
  connection object is set. The payloads of the ephemeral events the actions publish.
\<close>

record store_state =
  session :: "session option"
  participants :: "participant list"
  songs :: "song list"
  scores :: "score list"
  skipVotes :: "skip_vote list"
  currentParticipant :: "participant option"
  realtime :: bool

record song_changed =
  sc_session_id :: uuid
  sc_song_id :: uuid
  song_index :: int
  started_at :: timestamp
  sc_host_id :: uuid
  sc_timestamp :: timestamp

datatype broadcast =
    Session_started uuid uuid uuid timestamp
  | Session_ended uuid uuid timestamp
  | Song_changed song_changed
  | Song_added uuid string string string timestamp
  | Score_added uuid uuid uuid string int timestamp
  | Skip_vote_added uuid uuid uuid string timestamp

datatype store_call = Select string | Insert string | Update string | Delete string

datatype alert = TooLong int | FailedToAdd string

text \<open>
  The world one client acts on: the record store, the client's own state, the events it
  has published, the store requests it has issued (reads and writes, in order) and the
  alerts it has shown. An action takes the world and returns the error it throws
  (\<open>None\<close> when it resolves) with the world it leaves. The clock value \<open>now\<close> an action
  reads is an argument. Publishing returns a delivery status that no action reads; it is
  the event appended to \<open>outbox\<close>.
\<close>

record world =
  db :: database
  st :: store_state
  outbox :: "broadcast list"
  calls :: "store_call list"
  alerts :: "alert list"

definition issue :: "store_call \<Rightarrow> world \<Rightarrow> world" where
  "issue c w = w\<lparr>calls := calls w @ [c]\<rparr>"

definition send :: "broadcast \<Rightarrow> world \<Rightarrow> world" where
  "send b w = w\<lparr>outbox := outbox w @ [b]\<rparr>"

text \<open>\<^verbatim>\<open>xs[i]\<close> of JavaScript: \<^verbatim>\<open>undefined\<close> outside the array.\<close>

definition js_index :: "'a list \<Rightarrow> int \<Rightarrow> 'a option" where
  "js_index xs i = (if 0 \<le> i \<and> i < int (length xs) then Some (xs ! nat i) else None)"

text \<open>\<^verbatim>\<open>name || fallback\<close> on a nullable string: \<^verbatim>\<open>null\<close> and the empty string are falsy.\<close>

definition or_name :: "string option \<Rightarrow> string \<Rightarrow> string" where
  "or_name n fallback = (case n of None \<Rightarrow> fallback | Some s \<Rightarrow> if s = [] then fallback else s)"

section \<open>Store actions (session-store)\<close>

subsection \<open>updateSession\<close>

text \<open>
  The three blocks that follow the local update when the realtime connection is set, in the
  order of the source: the \<^verbatim>\<open>session_started\<close> broadcast (needs a first song), the reload of
  participants, songs and scores with the \<^verbatim>\<open>session_ended\<close> broadcast, and the
  \<^verbatim>\<open>song_changed\<close> broadcast (needs a song at the new index). Then the action itself: the
  patch always carries \<^verbatim>\<open>last_activity_at\<close>, a store error is thrown, and the row the store
  returns replaces the local session.
\<close>

definition broadcastSessionStarted :: "session \<Rightarrow> timestamp \<Rightarrow> world \<Rightarrow> world" where
  "broadcastSessionStarted sess now w =
     (case songs (st w) of
        [] \<Rightarrow> w
      | firstSong # _ \<Rightarrow> send (Session_started (sess_id sess) (host_id sess) (song_id firstSong) now) w)"

definition reloadFinalData :: "session \<Rightarrow> timestamp \<Rightarrow> world \<Rightarrow> world" where
  "reloadFinalData sess now w =
     (let w1 = issue (Select ''scores'') (issue (Select ''songs'') (issue (Select ''participants'') w));
          w2 = w1\<lparr>st := (st w1)\<lparr>participants := select_participants (db w1) (sess_id sess),
                                 songs := select_songs (db w1) (sess_id sess),
                                 scores := select_scores (db w1) (sess_id sess)\<rparr>\<rparr>
      in send (Session_ended (sess_id sess) (host_id sess) now) w2)"

definition broadcastSongChanged :: "session \<Rightarrow> session_patch \<Rightarrow> timestamp \<Rightarrow> world \<Rightarrow> world" where
  "broadcastSongChanged sess updates now w =
     (case upd_current_song_index updates of
        None \<Rightarrow> w
      | Some i \<Rightarrow>
          (case js_index (songs (st w)) i of
             None \<Rightarrow> w
           | Some currentSong \<Rightarrow>
               send (Song_changed
                 \<lparr>sc_session_id = sess_id sess, sc_song_id = song_id currentSong, song_index = i,
                  started_at = (case upd_current_song_started_at updates of
                                  None \<Rightarrow> now | Some t \<Rightarrow> t),
                  sc_host_id = host_id sess, sc_timestamp = now\<rparr>) w))"

definition updateSession :: "session_patch \<Rightarrow> timestamp \<Rightarrow> world \<Rightarrow> error option \<times> world" where
  "updateSession updates now w =
     (case session (st w) of
        None \<Rightarrow> (None, w)
      | Some sess \<Rightarrow>
          (let updatesWithActivity = updates\<lparr>upd_last_activity_at := Some now\<rparr>;
               w1 = issue (Update ''sessions'') w
           in case update_session (db w1) (sess_id sess) updatesWithActivity of
                (Inl e, _) \<Rightarrow> (Some e, w1)
              | (Inr data, d') \<Rightarrow>
                  (let w2 = w1\<lparr>db := d', st := (st w1)\<lparr>session := Some data\<rparr>\<rparr>
                   in if \<not> realtime (st w) then (None, w2)
                      else
                        (let w3 = (if upd_status updates = Some Playing \<and> status sess = Waiting
                                   then broadcastSessionStarted sess now w2 else w2);
                             w4 = (if upd_status updates = Some Finished
                                   then reloadFinalData sess now w3 else w3)
                         in (None, broadcastSongChanged sess updates now w4)))))"

subsection \<open>nextSong\<close>

text \<open>
  \<^verbatim>\<open>if (!session || session.current_song_index === null) return;\<close> and then the two
  branches on \<^verbatim>\<open>nextIndex >= songs.length\<close>.
\<close>

definition nextSong :: "timestamp \<Rightarrow> world \<Rightarrow> error option \<times> world" where
  "nextSong now w =
     (case session (st w) of
        None \<Rightarrow> (None, w)
      | Some sess \<Rightarrow>
          (case current_song_index sess of
             None \<Rightarrow> (None, w)
           | Some idx \<Rightarrow>
               (let nextIndex = idx + 1
                in if nextIndex \<ge> int (length (songs (st w)))
                   then updateSession (no_updates\<lparr>upd_status := Some Finished\<rparr>) now w
                   else updateSession (no_updates\<lparr>upd_current_song_index := Some nextIndex,
                                                   upd_current_song_started_at := Some now\<rparr>) now w)))"

subsection \<open>forcePlaySong and toggleInfiniteMode\<close>

text \<open>
  The two other store actions that write the session row. \<^verbatim>\<open>forcePlaySong\<close> records the
  force play (the result of that insert is not read) and moves the index to the song's
  position; \<^verbatim>\<open>toggleInfiniteMode\<close> patches \<^verbatim>\<open>infinite_mode\<close> to \<^verbatim>\<open>!session.infinite_mode\<close>
  with a store call of its own, without \<^verbatim>\<open>last_activity_at\<close>.
\<close>

definition forcePlaySong :: "uuid \<Rightarrow> uuid \<Rightarrow> timestamp \<Rightarrow> world \<Rightarrow> error option \<times> world" where
  "forcePlaySong songId participantId now w =
     (case session (st w) of
        None \<Rightarrow> (None, w)
      | Some sess \<Rightarrow>
          (case find (\<lambda>s. song_id s = songId) (songs (st w)) of
             None \<Rightarrow> (None, w)
           | Some sg \<Rightarrow>
               (let w1 = issue (Insert ''force_plays'') w;
                    w2 = w1\<lparr>db := snd (insert_force_play (db w1) (sess_id sess) participantId songId)\<rparr>
                in updateSession (no_updates\<lparr>upd_current_song_index := Some (position sg),
                                                upd_current_song_started_at := Some now\<rparr>) now w2)))"

definition toggleInfiniteMode :: "world \<Rightarrow> error option \<times> world" where
  "toggleInfiniteMode w =
     (case session (st w) of
        None \<Rightarrow> (None, w)
      | Some sess \<Rightarrow>
          (let newInfiniteMode = (infinite_mode sess \<noteq> Some True);
               w1 = issue (Update ''sessions'') w
           in case update_session (db w1) (sess_id sess)
                     (no_updates\<lparr>upd_infinite_mode := Some newInfiniteMode\<rparr>) of
                (Inl e, _) \<Rightarrow> (Some e, w1)
              | (Inr data, d') \<Rightarrow> (None, w1\<lparr>db := d', st := (st w1)\<lparr>session := Some data\<rparr>\<rparr>)))"

subsection \<open>The \<^verbatim>\<open>song_changed\<close> listener of subscribeToSession\<close>

definition on_song_changed :: "uuid \<Rightarrow> song_changed \<Rightarrow> world \<Rightarrow> world" where
  "on_song_changed sessionId data w =
     (if (case session (st w) of
            None \<Rightarrow> False
          | Some sess \<Rightarrow> current_song_index sess = Some (song_index data))
      then w
      else
        (let w1 = issue (Select ''sessions'') w
         in case select_session (db w1) sessionId of
              Inl _ \<Rightarrow> w1
            | Inr sessionData \<Rightarrow>
                (let w2 = w1\<lparr>st := (st w1)\<lparr>session := Some sessionData\<rparr>\<rparr>;
                     w3 = w2\<lparr>st := (st w2)\<lparr>skipVotes := []\<rparr>\<rparr>;
                     w4 = issue (Select ''skip_votes'') w3
                 in w4\<lparr>st := (st w4)\<lparr>skipVotes := select_skip_votes (db w4) sessionId\<rparr>\<rparr>)))"

subsection \<open>awardKarma\<close>

text \<open>The action catches every failure of its own, so it returns a world only.\<close>

definition awardKarma :: "uuid \<Rightarrow> int \<Rightarrow> karma_reason \<Rightarrow> world \<Rightarrow> world" where
  "awardKarma participantId amount reason w =
     (case session (st w) of
        None \<Rightarrow> w
      | Some sess \<Rightarrow>
          (let w1 = issue (Insert ''karma_history'') w
           in case insert_karma_history (db w1)
                     \<lparr>ke_participant_id = participantId, ke_session_id = sess_id sess,
                      ke_amount = amount, ke_reason = reason\<rparr> of
                (Some historyError, _) \<Rightarrow> w1
              | (None, d1) \<Rightarrow>
                  (let w2 = w1\<lparr>db := d1\<rparr>
                   in case find (\<lambda>p. part_id p = participantId) (participants (st w)) of
                        None \<Rightarrow> w2
                      | Some p \<Rightarrow>
                          (let newKarma = (case karma p of None \<Rightarrow> 0 | Some k \<Rightarrow> k) + amount;
                               w3 = issue (Update ''participants'') w2
                           in case update_participant_karma (db w3) participantId newKarma of
                                (Some updateError, _) \<Rightarrow> w3
                              | (None, d2) \<Rightarrow>
                                  w3\<lparr>db := d2,
                                     st := (st w3)\<lparr>participants :=
                                       map (\<lambda>q. if part_id q = participantId
                                                then q\<lparr>karma := Some newKarma\<rparr> else q)
                                           (participants (st w))\<rparr>\<rparr>))))"

subsection \<open>addScore\<close>

text \<open>
  \<^verbatim>\<open>if (error) { console.error('Error adding score:', error); throw error; }\<close> follows the
  insert; on success the score joins the local scores, karma is awarded to the voter and, for
  four or five stars, to the participant who added the song, and the score is broadcast.
\<close>

definition addScore :: "score \<Rightarrow> uuid \<Rightarrow> timestamp \<Rightarrow> world \<Rightarrow> error option \<times> world" where
  "addScore sc new_id now w =
     (let w1 = issue (Insert ''scores'') w
      in case insert_score (db w1) new_id sc of
           (Inl e, _) \<Rightarrow> (Some e, w1)
         | (Inr scoreData, d') \<Rightarrow>
             (let w2 = w1\<lparr>db := d', st := (st w1)\<lparr>scores := scores (st w) @ [scoreData]\<rparr>\<rparr>;
                  w3 = awardKarma (score_participant_id scoreData) 1 VotedOnSong w2;
                  w4 = (if rating scoreData \<ge> 4
                        then (case find (\<lambda>s. song_id s = score_song_id scoreData) (songs (st w)) of
                                None \<Rightarrow> w3
                              | Some sg \<Rightarrow>
                                  if added_by sg \<noteq> score_participant_id scoreData
                                  then awardKarma (added_by sg)
                                         (if rating scoreData = 5 then 3 else 2)
                                         (SongReceived (title sg) (rating scoreData)) w3
                                  else w3)
                        else w3)
              in case currentParticipant (st w) of
                   None \<Rightarrow> (None, w4)
                 | Some cp \<Rightarrow>
                     if realtime (st w)
                     then (None, send (Score_added (score_id scoreData) (score_song_id scoreData)
                                         (score_participant_id scoreData)
                                         (or_name (user_name cp) ''Unknown'')
                                         (rating scoreData) now) w4)
                     else (None, w4)))"

subsection \<open>addSkipVote\<close>

text \<open>
  Between the existence check and the insert the action is suspended, and other clients
  (another tab of the same participant, say) may write to the store. \<open>others\<close> is what
  they do to the store in that interval; the identity when nobody else writes.
\<close>

definition addSkipVote ::
  "(database \<Rightarrow> database) \<Rightarrow> uuid \<Rightarrow> uuid \<Rightarrow> timestamp \<Rightarrow> world \<Rightarrow> error option \<times> world"
where
  "addSkipVote others songId new_id now w =
     (case (session (st w), currentParticipant (st w)) of
        (Some sess, Some cp) \<Rightarrow>
          (let w1 = issue (Select ''skip_votes'') w;
               existingVotes = select_skip_vote_ids (db w1) (sess_id sess) songId (part_id cp)
           in if length existingVotes > 0 then (None, w1)
              else
                (let w2 = issue (Insert ''skip_votes'') (w1\<lparr>db := others (db w1)\<rparr>)
                 in case insert_skip_vote (db w2) new_id (sess_id sess) songId (part_id cp) of
                      (Inl e, _) \<Rightarrow>
                        if e = StoreError ''23505'' then (None, w2) else (Some e, w2)
                    | (Inr voteData, d') \<Rightarrow>
                        (let w3 = issue (Select ''skip_votes'') (w2\<lparr>db := d'\<rparr>);
                             w4 = w3\<lparr>st := (st w3)\<lparr>skipVotes :=
                                     select_skip_votes (db w3) (sess_id sess)\<rparr>\<rparr>
                         in if realtime (st w)
                            then (None, send (Skip_vote_added (sv_id voteData) songId (part_id cp)
                                                (or_name (user_name cp) ''Anonymous'') now) w4)
                            else (None, w4))))
      | _ \<Rightarrow> (None, w))"

subsection \<open>reorderSongs and shuffleQueue\<close>

text \<open>
  \<^verbatim>\<open>reorderSongs\<close> writes position \<open>index\<close> to the row of every song of its argument
  (\<^verbatim>\<open>Promise.all\<close> over the updates), throws when one of the results carries an error, and
  otherwise replaces the local queue by its argument.
\<close>

fun update_positions :: "(uuid \<times> int) list \<Rightarrow> database \<Rightarrow> error option list \<times> database" where
  "update_positions [] d = ([], d)"
| "update_positions ((sid, pos) # us) d =
     (case update_song_position d sid pos of
        (r, d1) \<Rightarrow> (case update_positions us d1 of (rs, d2) \<Rightarrow> (r # rs, d2)))"

definition reorderSongs :: "song list \<Rightarrow> world \<Rightarrow> error option \<times> world" where
  "reorderSongs sgs w =
     (let updates = map (\<lambda>(sg, index). (song_id sg, int index)) (zip sgs [0..<length sgs]);
          w1 = fold (\<lambda>u. issue (Update ''songs'')) updates w
      in case update_positions updates (db w1) of
           (results, d') \<Rightarrow>
             (let w2 = w1\<lparr>db := d'\<rparr>;
                  errors = filter (\<lambda>r. r \<noteq> None) results
              in if length errors > 0 then (Some (JsError ''Failed to reorder songs''), w2)
                 else (None, w2\<lparr>st := (st w2)\<lparr>songs := sgs\<rparr>\<rparr>)))"

text \<open>
  \<^verbatim>\<open>[shuffled[i], shuffled[j]] = [shuffled[j], shuffled[i]]\<close>, and the loop
  \<^verbatim>\<open>for (let i = shuffled.length - 1; i > 0; i--)\<close> with
  \<^verbatim>\<open>j = Math.floor(Math.random() * (i + 1))\<close>. \<open>rnd k\<close> is the value of the \<open>k\<close>-th call
  of \<^verbatim>\<open>Math.random()\<close>, a number in \<open>[0, 1)\<close>.
\<close>

definition swap :: "nat \<Rightarrow> nat \<Rightarrow> 'a list \<Rightarrow> 'a list" where
  "swap i j xs = xs[i := xs ! j, j := xs ! i]"

fun fisher_yates_loop :: "(nat \<Rightarrow> real) \<Rightarrow> nat \<Rightarrow> nat \<Rightarrow> 'a list \<Rightarrow> 'a list" where
  "fisher_yates_loop rnd k 0 xs = xs"
| "fisher_yates_loop rnd k (Suc m) xs =
     (let i = Suc m;
          j = nat \<lfloor>rnd k * real (i + 1)\<rfloor>
      in fisher_yates_loop rnd (Suc k) m (swap i j xs))"

definition fisher_yates :: "(nat \<Rightarrow> real) \<Rightarrow> 'a list \<Rightarrow> 'a list" where
  "fisher_yates rnd xs = fisher_yates_loop rnd 0 (length xs - 1) xs"

definition shuffleQueue :: "(nat \<Rightarrow> real) \<Rightarrow> world \<Rightarrow> error option \<times> world" where
  "shuffleQueue rnd w =
     (case session (st w) of
        None \<Rightarrow> (None, w)
      | Some sess \<Rightarrow>
          if status sess = Playing then (None, w)
          else (let shuffled = fisher_yates rnd (songs (st w))
                in reorderSongs shuffled w))"

subsection \<open>addSong\<close>

text \<open>
  The insert, karma for the adder, the reload of the queue by position and the
  \<^verbatim>\<open>song_added\<close> broadcast.
\<close>

definition addSong :: "song \<Rightarrow> uuid \<Rightarrow> timestamp \<Rightarrow> world \<Rightarrow> error option \<times> world" where
  "addSong sg new_id now w =
     (let w1 = issue (Insert ''songs'') w
      in case insert_song (db w1) new_id sg of
           (Inl e, _) \<Rightarrow> (Some e, w1)
         | (Inr data, d') \<Rightarrow>
             (let w2 = w1\<lparr>db := d'\<rparr>;
                  w3 = (if added_by sg \<noteq> [] then awardKarma (added_by sg) 2 (AddedSong (title sg)) w2
                        else w2)
              in case session (st w3) of
                   None \<Rightarrow> (None, w3)
                 | Some sess \<Rightarrow>
                     (let w4 = issue (Select ''songs'') w3;
                          w5 = w4\<lparr>st := (st w4)\<lparr>songs := select_songs (db w4) (sess_id sess)\<rparr>\<rparr>
                      in case currentParticipant (st w) of
                           None \<Rightarrow> (None, w5)
                         | Some cp \<Rightarrow>
                             if realtime (st w)
                             then (None, send (Song_added (song_id data) (title data) (artist data)
                                                 (or_name (user_name cp) ''Unknown'') now) w5)
                             else (None, w5))))"

section \<open>Session page (app/session/[id]/page.tsx) and add-song dialog\<close>

definition isHost :: "world \<Rightarrow> bool" where
  "isHost w = (case currentParticipant (st w) of None \<Rightarrow> False | Some p \<Rightarrow> is_host p = Some True)"

text \<open>The \<^verbatim>\<open>try\<close>/\<^verbatim>\<open>catch\<close> of the handler logs the error and swallows it.\<close>

definition handleStartSession :: "(nat \<Rightarrow> real) \<Rightarrow> timestamp \<Rightarrow> world \<Rightarrow> world" where
  "handleStartSession rnd now w =
     (if session (st w) = None \<or> \<not> isHost w \<or> length (songs (st w)) = 0 then w
      else case shuffleQueue rnd w of
             (Some e, w1) \<Rightarrow> w1
           | (None, w1) \<Rightarrow>
               snd (updateSession (no_updates\<lparr>upd_status := Some Playing,
                                               upd_current_song_index := Some 0,
                                               upd_current_song_started_at := Some now\<rparr>) now w1))"

text \<open>
  A candidate of the song search, the page's \<^verbatim>\<open>handleAddSong\<close> (it throws without session
  or participant and on a source id already in the client's queue) and the dialog's
  \<^verbatim>\<open>handleAddSong\<close> (it alerts and returns on a duration above \<^verbatim>\<open>MAX_DURATION\<close>, and
  alerts the message of whatever the page throws).
\<close>

record search_result =
  sr_id :: string
  sr_title :: string
  sr_artist :: string
  sr_thumbnail :: string
  sr_duration :: int

definition page_handleAddSong ::
  "search_result \<Rightarrow> uuid \<Rightarrow> timestamp \<Rightarrow> world \<Rightarrow> error option \<times> world"
where
  "page_handleAddSong sr new_id now w =
     (case session (st w) of
        None \<Rightarrow> (Some (JsError ''No session found''), w)
      | Some sess \<Rightarrow>
          (case currentParticipant (st w) of
             None \<Rightarrow> (Some (JsError ''No current participant found''), w)
           | Some cp \<Rightarrow>
               (let isDuplicate = (filter (\<lambda>s. source_id s = sr_id sr) (songs (st w)) \<noteq> [])
                in if isDuplicate then (Some (JsError ''This song is already in the queue''), w)
                   else addSong \<lparr>song_id = [], song_session_id = sess_id sess,
                                 title = sr_title sr, artist = sr_artist sr,
                                 album_art = Some (sr_thumbnail sr),
                                 duration = sr_duration sr, source = ''youtube'',
                                 source_id = sr_id sr, added_by = part_id cp,
                                 position = int (length (songs (st w)))\<rparr> new_id now w)))"

definition error_message :: "error \<Rightarrow> string" where
  "error_message e = (case e of JsError m \<Rightarrow> m | StoreError c \<Rightarrow> ''Unknown error'')"

definition MAX_DURATION :: int where
  "MAX_DURATION = 360"

definition dialog_handleAddSong :: "search_result \<Rightarrow> uuid \<Rightarrow> timestamp \<Rightarrow> world \<Rightarrow> world" where
  "dialog_handleAddSong sr new_id now w =
     (if sr_duration sr > MAX_DURATION then w\<lparr>alerts := alerts w @ [TooLong (sr_duration sr)]\<rparr>
      else case page_handleAddSong sr new_id now w of
             (Some e, w1) \<Rightarrow> w1\<lparr>alerts := alerts w1 @ [FailedToAdd (error_message e)]\<rparr>
           | (None, w1) \<Rightarrow> w1)"

text \<open>
  \<^verbatim>\<open>handleFinishSession\<close> of the page; \<open>confirmed\<close> is the answer of \<^verbatim>\<open>window.confirm\<close>.
\<close>

definition handleFinishSession :: "bool \<Rightarrow> timestamp \<Rightarrow> world \<Rightarrow> world" where
  "handleFinishSession confirmed now w =
     (if session (st w) = None \<or> \<not> isHost w then w
      else if \<not> confirmed then w
      else snd (updateSession (no_updates\<lparr>upd_status := Some Finished\<rparr>) now w))"

section \<open>What a client can do\<close>

text \<open>
  The handlers and store actions above, as the pages and hooks invoke them. They are all
  the call sites of \<^verbatim>\<open>updateSession\<close> (the page's start and finish handlers, \<^verbatim>\<open>nextSong\<close>,
  \<^verbatim>\<open>forcePlaySong\<close>) together with \<^verbatim>\<open>toggleInfiniteMode\<close>, the only other writer of the
  session row, and the modelled actions that write other tables. The SQL functions of the
  migrations set \<^verbatim>\<open>expires_at\<close>, \<^verbatim>\<open>last_activity_at\<close> or \<^verbatim>\<open>status = 'finished'\<close> only, and
  session creation inserts a new row with \<^verbatim>\<open>status: 'waiting'\<close>.
\<close>

datatype client_action =
    StartSession "nat \<Rightarrow> real"
  | FinishSession bool
  | NextSong
  | ForcePlaySong uuid uuid
  | ToggleInfiniteMode
  | ShuffleQueue "nat \<Rightarrow> real"
  | AddSongFromDialog search_result uuid
  | AddScore score uuid
  | AddSkipVote uuid uuid
  | SongChanged uuid song_changed

fun perform :: "client_action \<Rightarrow> timestamp \<Rightarrow> world \<Rightarrow> world" where
  "perform (StartSession rnd) now w = handleStartSession rnd now w"
| "perform (FinishSession confirmed) now w = handleFinishSession confirmed now w"
| "perform NextSong now w = snd (nextSong now w)"
| "perform (ForcePlaySong songId participantId) now w = snd (forcePlaySong songId participantId now w)"
| "perform ToggleInfiniteMode now w = snd (toggleInfiniteMode w)"
| "perform (ShuffleQueue rnd) now w = snd (shuffleQueue rnd w)"
| "perform (AddSongFromDialog sr new_id) now w = dialog_handleAddSong sr new_id now w"
| "perform (AddScore sc new_id) now w = snd (addScore sc new_id now w)"
| "perform (AddSkipVote songId new_id) now w = snd (addSkipVote id songId new_id now w)"
| "perform (SongChanged sessionId data) now w = on_song_changed sessionId data w"

section \<open>Example data\<close>

text \<open>A small session: two participants (Ana hosts), songs, and the worlds built from them.\<close>

definition pA :: participant where
  "pA = \<lparr>part_id = ''pA'', part_session_id = ''s1'', user_name = Some ''Ana'',
          is_host = Some True, joined_at = 1, karma = None\<rparr>"

definition pB :: participant where
  "pB = \<lparr>part_id = ''pB'', part_session_id = ''s1'', user_name = Some ''Ben'',
          is_host = Some False, joined_at = 2, karma = None\<rparr>"

definition pC :: participant where
  "pC = \<lparr>part_id = ''pC'', part_session_id = ''s1'', user_name = Some ''Cyd'',
          is_host = Some False, joined_at = 3, karma = None\<rparr>"

definition pD :: participant where
  "pD = \<lparr>part_id = ''pD'', part_session_id = ''s1'', user_name = None,
          is_host = None, joined_at = 4, karma = None\<rparr>"

definition song1 :: song where
  "song1 = \<lparr>song_id = ''g1'', song_session_id = ''s1'', title = ''T1'', artist = ''A1'',
             album_art = None, duration = 200, source = ''youtube'', source_id = ''yt1'',
             added_by = ''pA'', position = 0\<rparr>"

definition song2 :: song where
  "song2 = \<lparr>song_id = ''g2'', song_session_id = ''s1'', title = ''T2'', artist = ''A2'',
             album_art = None, duration = 300, source = ''youtube'', source_id = ''yt2'',
             added_by = ''pB'', position = 1\<rparr>"

definition voteA :: skip_vote where
  "voteA = \<lparr>sv_id = ''v1'', sv_session_id = ''s1'', sv_song_id = ''g1'',
             sv_participant_id = ''pA''\<rparr>"

definition voteB :: skip_vote where
  "voteB = \<lparr>sv_id = ''v2'', sv_session_id = ''s1'', sv_song_id = ''g1'',
             sv_participant_id = ''pB''\<rparr>"

definition sess_waiting :: session where
  "sess_waiting = \<lparr>sess_id = ''s1'', host_id = ''pA'', status = Waiting,
     current_song_index = Some 0, current_song_started_at = None, last_activity_at = None,
     infinite_mode = Some False, min_queue_size = Some 3\<rparr>"

definition sess_infinite :: session where
  "sess_infinite = \<lparr>sess_id = ''s1'', host_id = ''pA'', status = Playing,
     current_song_index = Some 0, current_song_started_at = Some 1000,
     last_activity_at = Some 1000, infinite_mode = Some True, min_queue_size = Some 3\<rparr>"

definition world_of :: "session \<Rightarrow> song list \<Rightarrow> participant \<Rightarrow> world" where
  "world_of s sgs cp =
     \<lparr>db = \<lparr>sessions = [s], participants_tbl = [pA, pB], songs_tbl = sgs, scores_tbl = [],
             skip_votes_tbl = [], karma_history = [], force_plays_tbl = []\<rparr>,
      st = \<lparr>session = Some s, participants = [pA, pB], songs = sgs, scores = [],
             skipVotes = [], currentParticipant = Some cp, realtime = True\<rparr>,
      outbox = [], calls = [], alerts = []\<rparr>"

text \<open>
  The playing session after Ana's skip vote for the first song has reached the store, and
  the write of another tab of Ana's that casts the same vote.
\<close>

definition world_voted :: world where
  "world_voted = (world_of sess_infinite [song1] pA)
     \<lparr>db := (db (world_of sess_infinite [song1] pA))\<lparr>skip_votes_tbl := [voteA]\<rparr>\<rparr>"

definition other_tab :: "database \<Rightarrow> database" where
  "other_tab d = snd (insert_skip_vote d ''v7'' ''s1'' ''g1'' ''pA'')"

definition candidate :: search_result where
  "candidate = \<lparr>sr_id = ''yt9'', sr_title = ''T9'', sr_artist = ''A9'', sr_thumbnail = ''img'',
                 sr_duration = 360\<rparr>"

definition vote5 :: score where
  "vote5 = \<lparr>score_id = [], score_session_id = ''s1'', score_song_id = ''g1'',
             score_participant_id = ''pB'', rating = 5\<rparr>"

text \<open>
  Three clients of the waiting session whose queue holds the first song: one whose copy of
  the queue has not yet received that song, one without a current participant, and one
  whose session is not loaded.
\<close>

definition world_stale :: world where
  "world_stale = (world_of sess_waiting [song1] pB)
     \<lparr>st := (st (world_of sess_waiting [song1] pB))\<lparr>songs := []\<rparr>\<rparr>"

definition world_guest :: world where
  "world_guest = (world_of sess_waiting [song1] pB)
     \<lparr>st := (st (world_of sess_waiting [song1] pB))\<lparr>currentParticipant := None\<rparr>\<rparr>"

definition world_unloaded :: world where
  "world_unloaded = (world_of sess_waiting [song1] pB)
     \<lparr>st := (st (world_of sess_waiting [song1] pB))\<lparr>session := None\<rparr>\<rparr>"

section \<open>Arithmetic of the clock and of the quorum\<close>

lemma floor_ms: "\<lfloor>real_of_int d / 1000\<rfloor> = d div 1000"
proof -
  have "\<lfloor>real_of_int d / real_of_int 1000\<rfloor> = d div 1000"
    by (rule floor_divide_of_int_eq)
  then show ?thesis by simp
qed

lemma skipThreshold_half: "skipThreshold ps = (int (length ps) + 1) div 2"
proof -
  have "real (length ps) * 0.5 = real_of_int (int (length ps)) / real_of_int 2"
    by simp
  then have "skipThreshold ps = \<lceil>real_of_int (int (length ps)) / real_of_int 2\<rceil>"
    by (simp only: skipThreshold_def)
  also have "\<dots> = - \<lfloor>real_of_int (- int (length ps)) / real_of_int 2\<rfloor>"
    by (simp add: ceiling_def)
  also have "\<dots> = - ((- int (length ps)) div 2)"
    by (simp only: floor_divide_of_int_eq)
  also have "\<dots> = (int (length ps) + 1) div 2"
    by presburger
  finally show ?thesis .
qed

lemma thresholdReached_iff:
  "thresholdReached vs cs ps \<longleftrightarrow>
     0 < length (songSkipVotes vs cs) \<and> length ps \<le> 2 * length (songSkipVotes vs cs)"
  unfolding thresholdReached_def skipThreshold_half by auto

lemma expected_div:
  "getExpectedPlaybackTime (Some startedAt) startTime now = max 0 ((now - startedAt) div 1000)"
  unfolding getExpectedPlaybackTime_def Let_def floor_ms by simp

lemma clamped_div:
  "clampedElapsed dur startedAt now = max 0 (min ((now - startedAt) div 1000) dur)"
  unfolding clampedElapsed_def Let_def floor_ms by simp

section \<open>Facts about the store and the actions\<close>

lemma issue_fields [simp]:
  "db (issue c w) = db w" "st (issue c w) = st w" "outbox (issue c w) = outbox w"
  "alerts (issue c w) = alerts w" "calls (issue c w) = calls w @ [c]"
  by (simp_all add: issue_def)

lemma send_fields [simp]:
  "db (send b w) = db w" "st (send b w) = st w" "outbox (send b w) = outbox w @ [b]"
  "alerts (send b w) = alerts w" "calls (send b w) = calls w"
  by (simp_all add: send_def)

lemma fold_issue_fields [simp]:
  "db (fold (\<lambda>u. issue c) us w) = db w" "st (fold (\<lambda>u. issue c) us w) = st w"
  "outbox (fold (\<lambda>u. issue c) us w) = outbox w"
  by (induction us arbitrary: w) simp_all

lemma update_positions_results:
  "filter (\<lambda>r. r \<noteq> None) (fst (update_positions us d)) = []"
  by (induction us d rule: update_positions.induct)
     (auto simp: update_song_position_def split: prod.splits)

lemma update_positions_sessions:
  "sessions (snd (update_positions us d)) = sessions d"
  by (induction us d rule: update_positions.induct)
     (auto simp: update_song_position_def split: prod.splits)

lemma reorderSongs_result:
  "fst (reorderSongs sgs w) = None
   \<and> st (snd (reorderSongs sgs w)) = (st w)\<lparr>songs := sgs\<rparr>
   \<and> sessions (db (snd (reorderSongs sgs w))) = sessions (db w)
   \<and> outbox (snd (reorderSongs sgs w)) = outbox w"
proof -
  let ?us = "map (\<lambda>(sg, index). (song_id sg, int index)) (zip sgs [0..<length sgs])"
  let ?w1 = "fold (\<lambda>u. issue (Update ''songs'')) ?us w"
  obtain rs d' where r: "update_positions ?us (db ?w1) = (rs, d')"
    by (cases "update_positions ?us (db ?w1)")
  have "filter (\<lambda>r. r \<noteq> None) rs = []"
    using update_positions_results [of ?us "db ?w1"] r by simp
  moreover have "sessions d' = sessions (db w)"
    using update_positions_sessions [of ?us "db ?w1"] r by simp
  ultimately show ?thesis
    using r by (simp add: reorderSongs_def Let_def)
qed

lemma draw_in_range:
  assumes "0 \<le> r" and "r < 1"
  shows "nat \<lfloor>r * real (Suc n)\<rfloor> \<le> n"
proof -
  have "r * real (Suc n) < real (Suc n)"
    using assms by simp
  then have "\<lfloor>r * real (Suc n)\<rfloor> < int (Suc n)"
    by (simp add: floor_less_iff)
  then show ?thesis by linarith
qed

lemma mset_swap_list: "i < length xs \<Longrightarrow> j < length xs \<Longrightarrow> mset (swap i j xs) = mset xs"
  unfolding swap_def by (rule mset_swap)

lemma length_swap [simp]: "length (swap i j xs) = length xs"
  by (simp add: swap_def)

lemma mset_fisher_yates_loop:
  assumes "\<forall>k. 0 \<le> rnd k \<and> rnd k < 1"
  shows "m < length xs \<Longrightarrow> mset (fisher_yates_loop rnd k m xs) = mset xs"
proof (induction m arbitrary: k xs)
  case 0
  then show ?case by simp
next
  case (Suc m)
  let ?j = "nat \<lfloor>rnd k * real (Suc m + 1)\<rfloor>"
  have "?j \<le> Suc m"
    using assms draw_in_range [of "rnd k" "Suc m"] by simp
  then have j: "?j < length xs" using Suc.prems by simp
  have "mset (fisher_yates_loop rnd (Suc k) m (swap (Suc m) ?j xs)) = mset (swap (Suc m) ?j xs)"
    using Suc.prems by (intro Suc.IH) simp
  also have "\<dots> = mset xs"
    using Suc.prems j by (intro mset_swap_list) simp_all
  finally show ?case by (simp add: Let_def)
qed

lemma mset_fisher_yates:
  assumes "\<forall>k. 0 \<le> rnd k \<and> rnd k < 1"
  shows "mset (fisher_yates rnd xs) = mset xs"
proof (cases xs)
  case Nil
  then show ?thesis by (simp add: fisher_yates_def)
next
  case (Cons x ys)
  then show ?thesis
    unfolding fisher_yates_def using assms by (intro mset_fisher_yates_loop) simp_all
qed

lemma update_session_row:
  assumes "filter (\<lambda>r. sess_id r = sid) (sessions d) = [row]"
  shows "update_session d sid p =
           (Inr (apply_patch row p),
            d\<lparr>sessions := map (\<lambda>r. if sess_id r = sid then apply_patch r p else r) (sessions d)\<rparr>)"
  using assms by (simp add: update_session_def)

lemma filter_map_patch:
  "filter (\<lambda>r. sess_id r = sid) (map (\<lambda>r. if sess_id r = sid then apply_patch r p else r) rs)
     = map (\<lambda>r. apply_patch r p) (filter (\<lambda>r. sess_id r = sid) rs)"
  by (induction rs) (simp_all add: apply_patch_def)

lemma updateSession_row:
  assumes "session (st w) = Some sess"
      and "filter (\<lambda>r. sess_id r = sess_id sess) (sessions (db w)) = [row]"
  shows "fst (updateSession p now w) = None
    \<and> session (st (snd (updateSession p now w)))
        = Some (apply_patch row (p\<lparr>upd_last_activity_at := Some now\<rparr>))
    \<and> filter (\<lambda>r. sess_id r = sess_id sess) (sessions (db (snd (updateSession p now w))))
        = [apply_patch row (p\<lparr>upd_last_activity_at := Some now\<rparr>)]"
proof -
  have "session (st (reloadFinalData sess now v)) = session (st v)" 
       "sessions (db (reloadFinalData sess now v)) = sessions (db v)" for v
    by (simp_all add: reloadFinalData_def Let_def)
  moreover have "session (st (broadcastSessionStarted sess now v)) = session (st v)" 
       "sessions (db (broadcastSessionStarted sess now v)) = sessions (db v)" for v
    by (simp_all add: broadcastSessionStarted_def split: list.splits)
  moreover have "session (st (broadcastSongChanged sess p now v)) = session (st v)" 
       "sessions (db (broadcastSongChanged sess p now v)) = sessions (db v)" for v
    by (simp_all add: broadcastSongChanged_def split: option.splits)
  ultimately show ?thesis
    using assms
    by (simp add: updateSession_def Let_def update_session_row filter_map_patch)
qed


lemma nextSong_status:
  "list_all2 (\<lambda>r r'. status r = Waiting \<longrightarrow> status r' \<noteq> Playing)
     (sessions (db w)) (sessions (db (snd (nextSong now w))))"
proof -
  have refl: "list_all2 (\<lambda>r r'. status r = Waiting \<longrightarrow> status r' \<noteq> Playing) rs rs"
    for rs :: "session list"
    by (simp add: list_all2_same)
  have upd: "list_all2 (\<lambda>r r'. status r = Waiting \<longrightarrow> status r' \<noteq> Playing)
               (sessions (db v)) (sessions (db (snd (updateSession p t v))))"
    if "upd_status p \<noteq> Some Playing" for p t v
  proof (cases "session (st v)")
    case None
    then show ?thesis by (simp add: updateSession_def refl)
  next
    case (Some sess)
    have s1: "sessions (db (reloadFinalData sess t u)) = sessions (db u)" for u
      by (simp add: reloadFinalData_def Let_def)
    have s2: "sessions (db (broadcastSessionStarted sess t u)) = sessions (db u)" for u
      by (simp add: broadcastSessionStarted_def split: list.splits)
    have s3: "sessions (db (broadcastSongChanged sess p t u)) = sessions (db u)" for u
      by (simp add: broadcastSongChanged_def split: option.splits)
    have m: "list_all2 (\<lambda>r r'. status r = Waiting \<longrightarrow> status r' \<noteq> Playing) rs
               (map (\<lambda>r. if sess_id r = k then apply_patch r q else r) rs)"
      if "upd_status q \<noteq> Some Playing" for rs k q
      using that
      by (induction rs) (auto simp: apply_patch_def split: option.splits)
    show ?thesis
      using Some that m [of "p\<lparr>upd_last_activity_at := Some t\<rparr>"]
      by (auto simp: updateSession_def Let_def update_session_def s1 s2 s3 refl
               split: list.splits)
  qed
  show ?thesis
    by (auto simp: nextSong_def Let_def refl no_updates_def intro!: upd
             split: option.splits)
qed

lemma awardKarma_keeps:
  "songs_tbl (db (awardKarma pid amount reason w)) = songs_tbl (db w)"
  "scores_tbl (db (awardKarma pid amount reason w)) = scores_tbl (db w)"
  "session (st (awardKarma pid amount reason w)) = session (st w)"
  "alerts (awardKarma pid amount reason w) = alerts w"
  by (simp_all add: awardKarma_def Let_def insert_karma_history_def update_participant_karma_def
        split: option.splits)

lemma unique_key_rows:
  "distinct (map key xs) \<Longrightarrow> length (filter (\<lambda>v. key v = k) xs) \<le> 1"
proof (induction xs)
  case Nil
  then show ?case by simp
next
  case (Cons x xs)
  show ?case
  proof (cases "key x = k")
    case True
    then have "k \<notin> key ` set xs" using Cons.prems by auto
    then have "filter (\<lambda>v. key v = k) xs = []"
      by (auto simp: filter_empty_conv)
    then show ?thesis using True by simp
  next
    case False
    then show ?thesis using Cons by simp
  qed
qed

lemma skip_vote_rows_le_1:
  assumes "skip_votes_unique d"
  shows "length (skip_vote_rows d sid songId pid) \<le> 1"
proof -
  have "length (filter (\<lambda>v. (sv_session_id v, sv_song_id v, sv_participant_id v)
                              = (sid, songId, pid)) (skip_votes_tbl d)) \<le> 1"
    using assms unfolding skip_votes_unique_def by (rule unique_key_rows)
  then show ?thesis by (simp add: skip_vote_rows_def)
qed

lemma insert_skip_vote_unique:
  assumes "skip_votes_unique d"
  shows "skip_votes_unique (snd (insert_skip_vote d new_id sid songId pid))"
proof (cases "skip_vote_rows d sid songId pid = []")
  case True
  then have "(sid, songId, pid)
      \<notin> (\<lambda>v. (sv_session_id v, sv_song_id v, sv_participant_id v)) ` set (skip_votes_tbl d)"
    by (auto simp: skip_vote_rows_def filter_empty_conv)
  then show ?thesis
    using assms True by (simp add: insert_skip_vote_def skip_votes_unique_def Let_def)
next
  case False
  then show ?thesis using assms by (simp add: insert_skip_vote_def)
qed

lemma addScore_duplicate:
  "score_rows (db w) (score_song_id sc) (score_participant_id sc) \<noteq> []
   \<Longrightarrow> addScore sc new_id now w = (Some (StoreError ''23505''), issue (Insert ''scores'') w)"
  by (simp add: addScore_def insert_score_def Let_def)

lemma addScore_fresh:
  "score_rows (db w) (score_song_id sc) (score_participant_id sc) = []
   \<Longrightarrow> fst (addScore sc new_id now w) = None
     \<and> scores_tbl (db (snd (addScore sc new_id now w))) = scores_tbl (db w) @ [sc\<lparr>score_id := new_id\<rparr>]"
  by (simp add: addScore_def insert_score_def Let_def awardKarma_keeps
        split: option.splits)

lemma update_positions_tbl:
  "songs_tbl (snd (update_positions us d))
     = map (\<lambda>r. case map_of (rev us) (song_id r) of None \<Rightarrow> r | Some p \<Rightarrow> r\<lparr>position := p\<rparr>)
           (songs_tbl d)"
proof (induction us d rule: update_positions.induct)
  case (1 d)
  then show ?case by simp
next
  case (2 sid pos us d)
  let ?d1 = "d\<lparr>songs_tbl := map (\<lambda>s. if song_id s = sid then s\<lparr>position := pos\<rparr> else s)
                                  (songs_tbl d)\<rparr>"
  have ih: "songs_tbl (snd (update_positions us ?d1))
     = map (\<lambda>r. case map_of (rev us) (song_id r) of None \<Rightarrow> r | Some p \<Rightarrow> r\<lparr>position := p\<rparr>)
           (songs_tbl ?d1)"
    using "2.IH" [of None ?d1] by (simp add: update_song_position_def)
  have "songs_tbl (snd (update_positions ((sid, pos) # us) d))
          = songs_tbl (snd (update_positions us ?d1))"
    by (simp add: update_song_position_def split: prod.splits)
  then show ?case
    unfolding ih
    by (auto simp: map_add_def split: option.splits)
qed

lemma map_fst_updates:
  "map fst (map (\<lambda>(sg, index). (song_id sg, int index)) (zip sgs [0..<length sgs]))
     = map song_id sgs"
  by (rule nth_equalityI) simp_all

lemma map_of_positions:
  assumes "distinct (map song_id sgs)" and "i < length sgs"
  shows "map_of (rev (map (\<lambda>(sg, index). (song_id sg, int index)) (zip sgs [0..<length sgs])))
           (song_id (sgs ! i)) = Some (int i)"
proof -
  let ?us = "map (\<lambda>(sg, index). (song_id sg, int index)) (zip sgs [0..<length sgs])"
  have "distinct (map fst ?us)"
    using assms(1) unfolding map_fst_updates .
  then have d: "distinct (map fst (rev ?us))"
    unfolding rev_map [symmetric] by (simp only: distinct_rev)
  have "?us ! i = (song_id (sgs ! i), int i)"
    using assms(2) by simp
  moreover have "i < length ?us" using assms(2) by simp
  ultimately have "(song_id (sgs ! i), int i) \<in> set (rev ?us)"
    by (metis nth_mem set_rev)
  then show ?thesis
    using d by simp
qed

lemma key_filter_single:
  "distinct (map f xs) \<Longrightarrow> k \<in> set xs \<Longrightarrow> filter (\<lambda>x. f k = f x) xs = [k]"
proof (induction xs)
  case Nil
  then show ?case by simp
next
  case (Cons x xs)
  show ?case
  proof (cases "k = x")
    case True
    then have "f k \<notin> f ` set xs" using Cons.prems by simp
    then have "filter (\<lambda>y. f k = f y) xs = []"
      by (auto simp: filter_empty_conv)
    then show ?thesis using True by simp
  next
    case False
    then have "k \<in> set xs" using Cons.prems by simp
    moreover have "f k \<noteq> f x"
    proof
      assume "f k = f x"
      then have "f x \<in> f ` set xs" using calculation by (metis imageI)
      then show False using Cons.prems(1) by simp
    qed
    ultimately show ?thesis using Cons by simp
  qed
qed

lemma reorderSongs_tbl:
  "songs_tbl (db (snd (reorderSongs sgs w)))
     = map (\<lambda>r. case map_of (rev (map (\<lambda>(sg, index). (song_id sg, int index))
                                      (zip sgs [0..<length sgs]))) (song_id r) of
                  None \<Rightarrow> r | Some p \<Rightarrow> r\<lparr>position := p\<rparr>)
           (songs_tbl (db w))"
proof -
  let ?us = "map (\<lambda>(sg, index). (song_id sg, int index)) (zip sgs [0..<length sgs])"
  let ?w1 = "fold (\<lambda>u. issue (Update ''songs'')) ?us w"
  obtain rs d' where r: "update_positions ?us (db ?w1) = (rs, d')"
    by (cases "update_positions ?us (db ?w1)")
  have "songs_tbl d' = map (\<lambda>r. case map_of (rev ?us) (song_id r) of
                  None \<Rightarrow> r | Some p \<Rightarrow> r\<lparr>position := p\<rparr>) (songs_tbl (db w))"
    using update_positions_tbl [of ?us "db ?w1"] r by simp
  then show ?thesis
    using r by (simp add: reorderSongs_def Let_def)
qed

lemma stored_order_after_reorder:
  fixes tbl sh :: "song list"
  defines "F \<equiv> (\<lambda>r. case map_of (rev (map (\<lambda>(sg, index). (song_id sg, int index))
                                      (zip sh [0..<length sh]))) (song_id r) of
                  None \<Rightarrow> r | Some p \<Rightarrow> r\<lparr>position := p\<rparr>)"
  assumes d: "distinct (map song_id tbl)"
      and m: "mset (filter (\<lambda>r. song_session_id r = sid) tbl) = mset sh"
  shows "sort_key position (filter (\<lambda>r. song_session_id r = sid) (map F tbl))
           = map (\<lambda>(s, i). s\<lparr>position := int i\<rparr>) (zip sh [0..<length sh])"
proof -
  let ?X = "filter (\<lambda>r. song_session_id r = sid) tbl"
  let ?T = "map (\<lambda>(s, i). s\<lparr>position := int i\<rparr>) (zip sh [0..<length sh])"
  have sess: "song_session_id (F r) = song_session_id r" for r
    by (simp add: F_def split: option.splits)
  have fm: "filter (\<lambda>r. song_session_id r = sid) (map F tbl) = map F ?X"
    by (simp add: filter_map comp_def sess)
  have "distinct (map song_id ?X)" using d by (rule distinct_map_filter)
  moreover have "mset (map song_id ?X) = mset (map song_id sh)"
    using m by (metis mset_map)
  ultimately have dsh: "distinct (map song_id sh)"
    using mset_eq_imp_distinct_iff by blast
  have FT: "map F sh = ?T"
  proof (rule nth_equalityI)
    show "length (map F sh) = length ?T" by simp
  next
    fix i assume "i < length (map F sh)"
    then have i: "i < length sh" by simp
    then show "map F sh ! i = ?T ! i"
      using map_of_positions [OF dsh i] by (simp add: F_def)
  qed
  have ms: "mset ?T = mset (map F ?X)"
  proof -
    have "mset (map F ?X) = image_mset F (mset ?X)" by simp
    also have "\<dots> = image_mset F (mset sh)" using m by simp
    also have "\<dots> = mset (map F sh)" by simp
    finally show ?thesis using FT by simp
  qed
  have pos: "map position ?T = map int [0..<length sh]"
    by (rule nth_equalityI) simp_all
  have sorted: "sorted (map position ?T)"
    unfolding pos by (simp add: sorted_map strict_sorted_iff sorted_wrt_iff_nth_less)
  have dT: "distinct (map position ?T)"
    unfolding pos by (simp add: distinct_map inj_on_def)
  have dX: "distinct (map position (map F ?X))"
    using dT ms by (metis mset_eq_imp_distinct_iff mset_map)
  have "sort_key position (map F ?X) = ?T"
  proof (rule properties_for_sort_key [OF ms _ sorted])
    fix k assume k: "k \<in> set ?T"
    then have k2: "k \<in> set (map F ?X)" using ms by (metis mset_eq_setD)
    show "filter (\<lambda>x. position k = position x) ?T
            = filter (\<lambda>x. position k = position x) (map F ?X)"
      using key_filter_single [OF dT k] key_filter_single [OF dX k2] by simp
  qed
  then show ?thesis using fm by simp
qed


lemma updateSession_keeps:
  "songs_tbl (db (snd (updateSession p t v))) = songs_tbl (db v)"
  "upd_status p \<noteq> Some Finished \<Longrightarrow> songs (st (snd (updateSession p t v))) = songs (st v)"
  by (auto simp: updateSession_def Let_def update_session_def reloadFinalData_def
        broadcastSessionStarted_def broadcastSongChanged_def
        split: option.splits list.splits)

lemma updateSession_sessions:
  "\<exists>f. sessions (db (snd (updateSession p t v))) = map f (sessions (db v))
       \<and> (\<forall>r. status (f r) = status r \<or> upd_status p = Some (status (f r)))"
proof (cases "session (st v)")
  case None
  then have "sessions (db (snd (updateSession p t v))) = map (\<lambda>r. r) (sessions (db v))"
    by (simp add: updateSession_def)
  then show ?thesis by blast
next
  case (Some sess)
  let ?q = "p\<lparr>upd_last_activity_at := Some t\<rparr>"
  let ?f = "\<lambda>r. if sess_id r = sess_id sess then apply_patch r ?q else r"
  have s1: "sessions (db (reloadFinalData sess t u)) = sessions (db u)" for u
    by (simp add: reloadFinalData_def Let_def)
  have s2: "sessions (db (broadcastSessionStarted sess t u)) = sessions (db u)" for u
    by (simp add: broadcastSessionStarted_def split: list.splits)
  have s3: "sessions (db (broadcastSongChanged sess p t u)) = sessions (db u)" for u
    by (simp add: broadcastSongChanged_def split: option.splits)
  have "sessions (db (snd (updateSession p t v))) = map ?f (sessions (db v))
        \<or> sessions (db (snd (updateSession p t v))) = map (\<lambda>r. r) (sessions (db v))"
    using Some
    by (auto simp: updateSession_def Let_def update_session_def s1 s2 s3 split: list.splits)
  moreover have "status (?f r) = status r \<or> upd_status p = Some (status (?f r))" for r
    by (simp add: apply_patch_def split: option.splits)
  ultimately show ?thesis by blast
qed

lemma awardKarma_sessions:
  "sessions (db (awardKarma pid amount reason w)) = sessions (db w)"
  by (simp add: awardKarma_def Let_def insert_karma_history_def update_participant_karma_def
        split: option.splits)

lemma addScore_sessions: "sessions (db (snd (addScore sc new_id now w))) = sessions (db w)"
  by (simp add: addScore_def insert_score_def Let_def awardKarma_sessions split: option.splits)

lemma addSkipVote_sessions:
  "sessions (db (snd (addSkipVote id songId new_id now w))) = sessions (db w)"
  by (simp add: addSkipVote_def insert_skip_vote_def Let_def split: option.splits)

lemma dialog_sessions:
  "sessions (db (dialog_handleAddSong sr new_id now w)) = sessions (db w)"
  by (simp add: dialog_handleAddSong_def page_handleAddSong_def addSong_def insert_song_def
        Let_def awardKarma_sessions split: option.splits prod.splits)

lemma shuffleQueue_sessions: "sessions (db (snd (shuffleQueue rnd w))) = sessions (db w)"
  by (simp add: shuffleQueue_def Let_def reorderSongs_result split: option.splits)

lemma toggle_sessions:
  "\<exists>f. sessions (db (snd (toggleInfiniteMode w))) = map f (sessions (db w))
       \<and> (\<forall>r. status (f r) = status r)"
proof (cases "session (st w)")
  case None
  then have "sessions (db (snd (toggleInfiniteMode w))) = map (\<lambda>r. r) (sessions (db w))"
    by (simp add: toggleInfiniteMode_def)
  then show ?thesis by blast
next
  case (Some sess)
  let ?q = "no_updates\<lparr>upd_infinite_mode := Some (infinite_mode sess \<noteq> Some True)\<rparr>"
  let ?f = "\<lambda>r. if sess_id r = sess_id sess then apply_patch r ?q else r"
  have "sessions (db (snd (toggleInfiniteMode w))) = map ?f (sessions (db w))
        \<or> sessions (db (snd (toggleInfiniteMode w))) = map (\<lambda>r. r) (sessions (db w))"
    using Some
    by (auto simp: toggleInfiniteMode_def Let_def update_session_def split: list.splits)
  moreover have "status (?f r) = status r" for r
    by (simp add: apply_patch_def no_updates_def)
  ultimately show ?thesis by blast
qed

lemma start_run:
  assumes "session (st w) = Some sess" and "status sess \<noteq> Playing" and "isHost w"
      and "songs (st w) \<noteq> []"
  shows "handleStartSession rnd now w
           = snd (updateSession (no_updates\<lparr>upd_status := Some Playing,
                                            upd_current_song_index := Some 0,
                                            upd_current_song_started_at := Some now\<rparr>) now
                    (snd (reorderSongs (fisher_yates rnd (songs (st w))) w)))"
proof -
  obtain r w1 where rs: "reorderSongs (fisher_yates rnd (songs (st w))) w = (r, w1)"
    by (cases "reorderSongs (fisher_yates rnd (songs (st w))) w")
  then have "r = None"
    using reorderSongs_result [of "fisher_yates rnd (songs (st w))" w] by simp
  then show ?thesis
    using assms rs by (simp add: handleStartSession_def shuffleQueue_def)
qed

lemma perform_sessions:
  "\<exists>f. sessions (db (perform a now w)) = map f (sessions (db w))
       \<and> (\<forall>r. status r = Waiting \<and> status (f r) = Playing \<longrightarrow>
              (\<exists>rnd. a = StartSession rnd) \<and> session (st w) \<noteq> None \<and> isHost w
              \<and> songs (st w) \<noteq> [])"
proof -
  have same: "?thesis" if "sessions (db (perform a now w)) = sessions (db w)"
  proof -
    have "sessions (db (perform a now w)) = map (\<lambda>r. r) (sessions (db w))"
      using that by simp
    then show ?thesis by (intro exI [of _ "\<lambda>r. r"]) auto
  qed
  have upd: "?thesis"
    if "perform a now w = snd (updateSession p now v)" and "sessions (db v) = sessions (db w)"
       and "upd_status p \<noteq> Some Playing" for p v
  proof -
    obtain f where f: "sessions (db (snd (updateSession p now v))) = map f (sessions (db v))"
        "\<And>r. status (f r) = status r \<or> upd_status p = Some (status (f r))"
      using updateSession_sessions [of p now v] by blast
    have "\<not> (status r = Waiting \<and> status (f r) = Playing)" for r
      using f(2) [of r] that(3) by auto
    then show ?thesis using f(1) that(1,2) by (intro exI [of _ f]) auto
  qed
  show ?thesis
  proof (cases a)
    case (StartSession rnd)
    show ?thesis
    proof (cases "session (st w) = None \<or> \<not> isHost w \<or> songs (st w) = []")
      case True
      then have "perform a now w = w" using StartSession by (auto simp: handleStartSession_def)
      then show ?thesis using same by simp
    next
      case False
      then obtain sess where sess: "session (st w) = Some sess" by auto
      show ?thesis
      proof (cases "status sess = Playing")
        case True
        let ?p = "no_updates\<lparr>upd_status := Some Playing, upd_current_song_index := Some 0,
                               upd_current_song_started_at := Some now\<rparr>"
        have run: "perform a now w = snd (updateSession ?p now w)"
          using StartSession False sess True
          by (auto simp: handleStartSession_def shuffleQueue_def)
        obtain f where "sessions (db (snd (updateSession ?p now w))) = map f (sessions (db w))"
          using updateSession_sessions [of ?p now w] by blast
        then have "sessions (db (perform a now w)) = map f (sessions (db w))"
          using run by simp
        then show ?thesis using StartSession False by (intro exI [of _ f]) auto
      next
        case notp: False
        let ?p = "no_updates\<lparr>upd_status := Some Playing, upd_current_song_index := Some 0,
                               upd_current_song_started_at := Some now\<rparr>"
        let ?w1 = "snd (reorderSongs (fisher_yates rnd (songs (st w))) w)"
        have run: "perform a now w = snd (updateSession ?p now ?w1)"
          using StartSession start_run [OF sess notp, of rnd now] False by simp
        obtain f where f: "sessions (db (snd (updateSession ?p now ?w1))) = map f (sessions (db ?w1))"
          using updateSession_sessions [of ?p now ?w1] by blast
        have "sessions (db ?w1) = sessions (db w)"
          using reorderSongs_result [of "fisher_yates rnd (songs (st w))" w] by simp
        then have "sessions (db (perform a now w)) = map f (sessions (db w))"
          using run f by simp
        then show ?thesis using StartSession False by (intro exI [of _ f]) auto
      qed
    qed
  next
    case (FinishSession confirmed)
    show ?thesis
    proof (cases "session (st w) = None \<or> \<not> isHost w \<or> \<not> confirmed")
      case True
      then have "perform a now w = w" using FinishSession by (auto simp: handleFinishSession_def)
      then show ?thesis using same by simp
    next
      case False
      then have "perform a now w = snd (updateSession (no_updates\<lparr>upd_status := Some Finished\<rparr>) now w)"
        using FinishSession by (auto simp: handleFinishSession_def)
      then show ?thesis by (rule upd) (simp_all add: no_updates_def)
    qed
  next
    case NextSong
    show ?thesis
    proof (cases "session (st w)")
      case None
      then have "perform a now w = w" using NextSong by (simp add: nextSong_def)
      then show ?thesis using same by simp
    next
      case (Some sess)
      show ?thesis
      proof (cases "current_song_index sess")
        case None
        then have "perform a now w = w" using NextSong Some by (simp add: nextSong_def)
        then show ?thesis using same by simp
      next
        case (Some idx)
        show ?thesis
        proof (cases "idx + 1 \<ge> int (length (songs (st w)))")
          case True
          then have "perform a now w
              = snd (updateSession (no_updates\<lparr>upd_status := Some Finished\<rparr>) now w)"
            using NextSong Some \<open>session (st w) = Some sess\<close> by (simp add: nextSong_def Let_def)
          then show ?thesis by (rule upd) (simp_all add: no_updates_def)
        next
          case False
          then have "perform a now w
              = snd (updateSession (no_updates\<lparr>upd_current_song_index := Some (idx + 1),
                                               upd_current_song_started_at := Some now\<rparr>) now w)"
            using NextSong Some \<open>session (st w) = Some sess\<close> by (simp add: nextSong_def Let_def)
          then show ?thesis by (rule upd) (simp_all add: no_updates_def)
        qed
      qed
    qed
  next
    case (ForcePlaySong songId participantId)
    show ?thesis
    proof (cases "session (st w)")
      case None
      then have "perform a now w = w" using ForcePlaySong by (simp add: forcePlaySong_def)
      then show ?thesis using same by simp
    next
      case (Some sess)
      show ?thesis
      proof (cases "find (\<lambda>s. song_id s = songId) (songs (st w))")
        case None
        then have "perform a now w = w" using ForcePlaySong Some by (simp add: forcePlaySong_def)
        then show ?thesis using same by simp
      next
        case (Some sg)
        let ?v = "(issue (Insert ''force_plays'') w)
                    \<lparr>db := snd (insert_force_play (db (issue (Insert ''force_plays'') w))
                                  (sess_id sess) participantId songId)\<rparr>"
        have "perform a now w
            = snd (updateSession (no_updates\<lparr>upd_current_song_index := Some (position sg),
                                             upd_current_song_started_at := Some now\<rparr>) now ?v)"
          using ForcePlaySong Some \<open>session (st w) = Some sess\<close>
          by (simp add: forcePlaySong_def Let_def)
        then show ?thesis
          by (rule upd) (simp_all add: no_updates_def insert_force_play_def)
      qed
    qed
  next
    case ToggleInfiniteMode
    obtain f where "sessions (db (snd (toggleInfiniteMode w))) = map f (sessions (db w))"
        "\<And>r. status (f r) = status r"
      using toggle_sessions [of w] by blast
    then show ?thesis using ToggleInfiniteMode by (intro exI [of _ f]) auto
  next
    case (ShuffleQueue rnd)
    then show ?thesis using same shuffleQueue_sessions [of rnd w] by simp
  next
    case (AddSongFromDialog sr new_id)
    then show ?thesis using same dialog_sessions [of sr new_id now w] by simp
  next
    case (AddScore sc new_id)
    then show ?thesis using same addScore_sessions [of sc new_id now w] by simp
  next
    case (AddSkipVote songId new_id)
    then show ?thesis using same addSkipVote_sessions [of songId new_id now w] by simp
  next
    case (SongChanged sessionId data)
    then have "db (perform a now w) = db w"
      by (simp add: on_song_changed_def Let_def split: sum.splits)
    then show ?thesis using same by simp
  qed
qed


section \<open>Skip-vote quorum\<close>

text \<open>
  C1 (as amended). With \<open>N\<close> participants the threshold of the skip-vote check is
  \<open>ceil(N * 0.5)\<close>, that is \<open>(N + 1) div 2\<close>, and the check succeeds exactly when the current
  song has at least one vote and at least \<open>N / 2\<close> of them. With four participants two votes
  reach quorum, with three participants two votes reach quorum, and a single vote reaches
  quorum exactly when there are at most two participants. The hook invokes \<^verbatim>\<open>nextSong\<close>
  exactly when the check succeeds on the host of a playing session with no advance in flight.
\<close>

theorem skip_quorum_threshold:
  "skipThreshold ps = \<lceil>real (length ps) * 0.5\<rceil>
   \<and> skipThreshold ps = (int (length ps) + 1) div 2
   \<and> (thresholdReached vs cs ps \<longleftrightarrow>
        0 < length (songSkipVotes vs cs) \<and> length ps \<le> 2 * length (songSkipVotes vs cs))
   \<and> (length ps = 4 \<and> length (songSkipVotes vs cs) = 2 \<longrightarrow> thresholdReached vs cs ps)
   \<and> (length ps = 3 \<and> length (songSkipVotes vs cs) = 2 \<longrightarrow> thresholdReached vs cs ps)
   \<and> (length (songSkipVotes vs cs) = 1 \<longrightarrow> (thresholdReached vs cs ps \<longleftrightarrow> length ps \<le> 2))
   \<and> (autoSkip host (Some cs) (Some s) checking vs ps \<longleftrightarrow>
        host \<and> status s = Playing \<and> \<not> checking \<and> thresholdReached vs cs ps)"
  using thresholdReached_iff [of vs cs ps] skipThreshold_half [of ps]
  by (auto simp: skipThreshold_def autoSkip_def)

theorem skip_quorum_threshold_witness:
  "length [pA, pB, pC, pD] = 4 \<and> length (songSkipVotes [voteA, voteB] song1) = 2
   \<and> thresholdReached [voteA, voteB] song1 [pA, pB, pC, pD]
   \<and> length [pA, pB, pC] = 3 \<and> thresholdReached [voteA, voteB] song1 [pA, pB, pC]
   \<and> length (songSkipVotes [voteA] song1) = 1
   \<and> \<not> thresholdReached [voteA] song1 [pA, pB, pC]"
  using skip_quorum_threshold [of "[pA, pB, pC, pD]" "[voteA, voteB]" song1]
        skip_quorum_threshold [of "[pA, pB, pC]" "[voteA, voteB]" song1]
        skip_quorum_threshold [of "[pA, pB, pC]" "[voteA]" song1]
  by (simp add: songSkipVotes_def voteA_def voteB_def song1_def)

text \<open>
  The claim as first stated fails: with two participants the single vote of one of them
  reaches quorum.
\<close>

theorem single_vote_reaches_quorum:
  "1 \<le> length [pA, pB] \<and> length (songSkipVotes [voteA] song1) = 1
   \<and> thresholdReached [voteA] song1 [pA, pB]"
  by (simp add: thresholdReached_iff songSkipVotes_def voteA_def song1_def)

section \<open>Playback clock\<close>

text \<open>
  C5. For a session start timestamp \<open>startedAt\<close> and a wall-clock time \<open>now\<close>, the expected
  playback offset of the player is \<open>max(0, floor((now - startedAt) / 1000))\<close> seconds; it is
  never negative, and it is \<open>0\<close> when \<open>startedAt\<close> lies in the future of the local clock.
\<close>

theorem expected_offset_formula:
  "getExpectedPlaybackTime (Some startedAt) startTime now
     = max 0 \<lfloor>real_of_int (now - startedAt) / 1000\<rfloor>
   \<and> getExpectedPlaybackTime (Some startedAt) startTime now = max 0 ((now - startedAt) div 1000)
   \<and> 0 \<le> getExpectedPlaybackTime (Some startedAt) startTime now
   \<and> (now < startedAt \<longrightarrow> getExpectedPlaybackTime (Some startedAt) startTime now = 0)"
proof -
  have "now < startedAt \<Longrightarrow> (now - startedAt) div 1000 \<le> 0"
    by (simp add: div_nonpos_pos_le0)
  then show ?thesis
    unfolding expected_div floor_ms by auto
qed

theorem expected_offset_formula_witness:
  "(1000::int) < 5000 \<and> getExpectedPlaybackTime (Some 5000) 7 1000 = 0"
  using expected_offset_formula [of 5000 7 1000] by simp

text \<open>
  C6 (as amended). For fixed inputs of the clock, the expected playback offset is
  monotonically non-decreasing in wall-clock time and never below \<open>0\<close>; the player puts no
  upper bound on it. The elapsed time shown by the progress bar is monotonically
  non-decreasing too and lies in \<open>[0, duration]\<close> for a song of non-negative duration.
\<close>

theorem playback_offset_monotone:
  assumes "now1 \<le> now2" and "0 \<le> dur"
  shows "getExpectedPlaybackTime sessionStartedAt startTime now1
           \<le> getExpectedPlaybackTime sessionStartedAt startTime now2
         \<and> 0 \<le> getExpectedPlaybackTime (Some startedAt) startTime now1
         \<and> clampedElapsed dur startedAt now1 \<le> clampedElapsed dur startedAt now2
         \<and> 0 \<le> clampedElapsed dur startedAt now1
         \<and> clampedElapsed dur startedAt now1 \<le> dur"
proof -
  have m: "(now1 - t) div 1000 \<le> (now2 - t) div 1000" for t
    using assms(1) by (intro zdiv_mono1) auto
  have "getExpectedPlaybackTime sessionStartedAt startTime now1
           \<le> getExpectedPlaybackTime sessionStartedAt startTime now2"
  proof (cases sessionStartedAt)
    case None
    then show ?thesis by (simp add: getExpectedPlaybackTime_def)
  next
    case (Some t)
    then show ?thesis using m [of t] by (simp add: expected_div)
  qed
  moreover have "clampedElapsed dur startedAt now1 \<le> clampedElapsed dur startedAt now2"
    using m [of startedAt] by (simp add: clamped_div)
  ultimately show ?thesis
    using assms(2) by (simp add: expected_div clamped_div)
qed

theorem playback_offset_monotone_witness:
  "(1000::int) \<le> 9000 \<and> (0::int) \<le> duration song1
   \<and> getExpectedPlaybackTime (Some 0) 0 1000 \<le> getExpectedPlaybackTime (Some 0) 0 9000
   \<and> clampedElapsed (duration song1) 0 1000 \<le> duration song1"
  using playback_offset_monotone [of 1000 9000 "duration song1" "Some 0" 0 0]
  by (simp add: song1_def)

text \<open>
  The claim as first stated fails: 400 seconds after the start of a song of 200 seconds the
  expected offset is 400.
\<close>

theorem playback_offset_exceeds_duration:
  "getExpectedPlaybackTime (Some 0) 0 400000 = 400 \<and> duration song1 = 200
   \<and> \<not> getExpectedPlaybackTime (Some 0) 0 400000 \<le> duration song1"
  by (simp add: expected_div song1_def)

section \<open>Advancing the session\<close>

text \<open>
  C10. \<^verbatim>\<open>nextSong\<close> is a no-op when the local session is null or when its
  \<^verbatim>\<open>current_song_index\<close> is null: it resolves and leaves the world as it was, so it issues
  no store request, changes no local state and publishes no event.
\<close>

theorem nextSong_noop:
  "session (st w) = None \<or> (\<exists>s. session (st w) = Some s \<and> current_song_index s = None)
   \<Longrightarrow> nextSong now w = (None, w)"
  by (auto simp: nextSong_def)

theorem nextSong_noop_witness:
  "session (st ((world_of sess_waiting [song1] pA)
       \<lparr>st := (st (world_of sess_waiting [song1] pA))\<lparr>session := None\<rparr>\<rparr>)) = None
   \<and> nextSong 5000 ((world_of sess_waiting [song1] pA)
         \<lparr>st := (st (world_of sess_waiting [song1] pA))\<lparr>session := None\<rparr>\<rparr>)
       = (None, (world_of sess_waiting [song1] pA)
                  \<lparr>st := (st (world_of sess_waiting [song1] pA))\<lparr>session := None\<rparr>\<rparr>)
   \<and> session (st (world_of (sess_waiting\<lparr>current_song_index := None\<rparr>) [song1] pA))
       = Some (sess_waiting\<lparr>current_song_index := None\<rparr>)
   \<and> current_song_index (sess_waiting\<lparr>current_song_index := None\<rparr>) = None
   \<and> nextSong 5000 (world_of (sess_waiting\<lparr>current_song_index := None\<rparr>) [song1] pA)
       = (None, world_of (sess_waiting\<lparr>current_song_index := None\<rparr>) [song1] pA)"
  using nextSong_noop [of "(world_of sess_waiting [song1] pA)
          \<lparr>st := (st (world_of sess_waiting [song1] pA))\<lparr>session := None\<rparr>\<rparr>" 5000]
        nextSong_noop [of "world_of (sess_waiting\<lparr>current_song_index := None\<rparr>) [song1] pA" 5000]
  by (simp add: world_of_def)

text \<open>
  C2. The code at the end of the queue with infinite mode enabled: the session of the
  example has \<^verbatim>\<open>infinite_mode = true\<close>, \<^verbatim>\<open>min_queue_size = 3\<close> and plays the last of its
  songs. \<^verbatim>\<open>nextSong\<close> resolves, no song is contributed, and the session is finished both in
  the store and in the client.
\<close>

theorem nextSong_infinite_mode_finishes:
  "infinite_mode sess_infinite = Some True
   \<and> fst (nextSong 5000 (world_of sess_infinite [song1] pA)) = None
   \<and> map status (sessions (db (snd (nextSong 5000 (world_of sess_infinite [song1] pA)))))
       = [Finished]
   \<and> songs_tbl (db (snd (nextSong 5000 (world_of sess_infinite [song1] pA)))) = [song1]
   \<and> map_option status (session (st (snd (nextSong 5000 (world_of sess_infinite [song1] pA)))))
       = Some Finished"
  by (simp add: nextSong_def updateSession_def update_session_def apply_patch_def world_of_def
        sess_infinite_def no_updates_def Let_def reloadFinalData_def broadcastSongChanged_def
        select_songs_def select_participants_def select_scores_def issue_def send_def)

section \<open>The song_changed listener\<close>

text \<open>
  C4. When a \<^verbatim>\<open>song_changed\<close> event carries the \<^verbatim>\<open>song_index\<close> the local session already
  holds, the listener returns the world it was given: no local state is changed, no store
  request (reload) is issued and nothing is published.
\<close>

theorem song_changed_same_index:
  "session (st w) = Some sess \<Longrightarrow> current_song_index sess = Some (song_index data)
   \<Longrightarrow> on_song_changed sessionId data w = w"
  by (simp add: on_song_changed_def)

theorem song_changed_same_index_witness:
  "session (st (world_of sess_infinite [song1, song2] pB)) = Some sess_infinite
   \<and> current_song_index sess_infinite
       = Some (song_index \<lparr>sc_session_id = ''s1'', sc_song_id = ''g1'', song_index = 0,
                            started_at = 1000, sc_host_id = ''pA'', sc_timestamp = 1001\<rparr>)
   \<and> on_song_changed ''s1''
        \<lparr>sc_session_id = ''s1'', sc_song_id = ''g1'', song_index = 0,
         started_at = 1000, sc_host_id = ''pA'', sc_timestamp = 1001\<rparr>
        (world_of sess_infinite [song1, song2] pB)
       = world_of sess_infinite [song1, song2] pB"
  using song_changed_same_index [of "world_of sess_infinite [song1, song2] pB" sess_infinite
          "\<lparr>sc_session_id = ''s1'', sc_song_id = ''g1'', song_index = 0,
            started_at = 1000, sc_host_id = ''pA'', sc_timestamp = 1001\<rparr>" "''s1''"]
  by (simp add: world_of_def sess_infinite_def)

section \<open>Starting the session\<close>

text \<open>
  C8. The host's start action \<^verbatim>\<open>handleStartSession\<close> is a no-op without a session, for a
  participant who is not the host and for an empty queue. For the host of a waiting session
  with at least one queued song whose row is in the store, it first shuffles the queue with
  the Fisher-Yates loop, which leaves a permutation of the songs that were queued, and then
  sets \<^verbatim>\<open>status = playing\<close>, \<^verbatim>\<open>current_song_index = 0\<close> and
  \<^verbatim>\<open>current_song_started_at = now\<close> (with \<^verbatim>\<open>last_activity_at = now\<close>), in the store and
  in the client. The shuffle is persisted: the rows of \<^verbatim>\<open>songs\<close> change in their position
  only, every row of the \<open>i\<close>-th song of the shuffled queue holds position \<open>i\<close> (song
  identifiers being distinct), and when the client's queue was the store's queue of the
  session, reading that queue by position afterwards gives the shuffled songs with the
  positions \<open>0, 1, ...\<close>. Among all the actions of a client, only the start action of a
  host with a session and a non-empty queue takes a stored session from waiting to playing;
  in particular \<^verbatim>\<open>nextSong\<close> never does. The store action \<^verbatim>\<open>updateSession\<close> makes that
  transition only for a patch with \<^verbatim>\<open>status: 'playing'\<close>, and the start action is its one
  call site with such a patch.
\<close>

theorem start_session_transition:
  "(session (st w) = None \<or> \<not> isHost w \<or> songs (st w) = []
      \<longrightarrow> handleStartSession rnd now w = w)
   \<and> (session (st w) = Some sess \<and> status sess = Waiting \<and> isHost w \<and> songs (st w) \<noteq> []
       \<and> filter (\<lambda>r. sess_id r = sess_id sess) (sessions (db w)) = [row]
       \<and> (\<forall>k. 0 \<le> rnd k \<and> rnd k < 1)
      \<longrightarrow> songs (st (handleStartSession rnd now w)) = fisher_yates rnd (songs (st w))
          \<and> mset (songs (st (handleStartSession rnd now w))) = mset (songs (st w))
          \<and> session (st (handleStartSession rnd now w))
              = Some (row\<lparr>status := Playing, current_song_index := Some 0,
                           current_song_started_at := Some now, last_activity_at := Some now\<rparr>)
          \<and> filter (\<lambda>r. sess_id r = sess_id sess) (sessions (db (handleStartSession rnd now w)))
              = [row\<lparr>status := Playing, current_song_index := Some 0,
                      current_song_started_at := Some now, last_activity_at := Some now\<rparr>]
          \<and> map (\<lambda>r. r\<lparr>position := 0\<rparr>) (songs_tbl (db (handleStartSession rnd now w)))
              = map (\<lambda>r. r\<lparr>position := 0\<rparr>) (songs_tbl (db w))
          \<and> (distinct (map song_id (songs (st w))) \<longrightarrow>
               (\<forall>i < length (songs (st w)).
                  \<forall>r \<in> set (songs_tbl (db (handleStartSession rnd now w))).
                    song_id r = song_id (fisher_yates rnd (songs (st w)) ! i)
                      \<longrightarrow> position r = int i))
          \<and> (distinct (map song_id (songs_tbl (db w)))
               \<and> mset (filter (\<lambda>r. song_session_id r = sess_id sess) (songs_tbl (db w)))
                    = mset (songs (st w)) \<longrightarrow>
               select_songs (db (handleStartSession rnd now w)) (sess_id sess)
                 = map (\<lambda>(s, i). s\<lparr>position := int i\<rparr>)
                       (zip (fisher_yates rnd (songs (st w))) [0..<length (songs (st w))])))
   \<and> list_all2 (\<lambda>r r'. status r = Waiting \<longrightarrow> status r' \<noteq> Playing)
        (sessions (db w)) (sessions (db (snd (nextSong now w))))
   \<and> list_all2 (\<lambda>r r'. status r = Waiting \<and> status r' = Playing \<longrightarrow>
                  (\<exists>rnd'. a = StartSession rnd') \<and> session (st w) \<noteq> None \<and> isHost w
                  \<and> songs (st w) \<noteq> [])
        (sessions (db w)) (sessions (db (perform a now w)))
   \<and> list_all2 (\<lambda>r r'. status r = Waiting \<and> status r' = Playing \<longrightarrow>
                  upd_status p = Some Playing)
        (sessions (db w)) (sessions (db (snd (updateSession p now w))))"
proof (intro conjI impI)
  assume "session (st w) = None \<or> \<not> isHost w \<or> songs (st w) = []"
  then show "handleStartSession rnd now w = w"
    by (auto simp: handleStartSession_def)
next
  obtain g where g: "sessions (db (snd (updateSession p now w))) = map g (sessions (db w))"
      "\<And>r. status (g r) = status r \<or> upd_status p = Some (status (g r))"
    using updateSession_sessions [of p now w] by blast
  have "status r = Waiting \<and> status (g r) = Playing \<longrightarrow> upd_status p = Some Playing" for r
    using g(2) [of r] by auto
  then show "list_all2 (\<lambda>r r'. status r = Waiting \<and> status r' = Playing \<longrightarrow>
                  upd_status p = Some Playing)
        (sessions (db w)) (sessions (db (snd (updateSession p now w))))"
    unfolding g(1) list_all2_map2 list_all2_same by blast
next
  show "list_all2 (\<lambda>r r'. status r = Waiting \<longrightarrow> status r' \<noteq> Playing)
        (sessions (db w)) (sessions (db (snd (nextSong now w))))"
    by (rule nextSong_status)
next
  obtain f where f: "sessions (db (perform a now w)) = map f (sessions (db w))"
      "\<And>r. status r = Waiting \<and> status (f r) = Playing \<longrightarrow>
              (\<exists>rnd'. a = StartSession rnd') \<and> session (st w) \<noteq> None \<and> isHost w
              \<and> songs (st w) \<noteq> []"
    using perform_sessions [of a now w] by blast
  show "list_all2 (\<lambda>r r'. status r = Waiting \<and> status r' = Playing \<longrightarrow>
                  (\<exists>rnd'. a = StartSession rnd') \<and> session (st w) \<noteq> None \<and> isHost w
                  \<and> songs (st w) \<noteq> [])
        (sessions (db w)) (sessions (db (perform a now w)))"
    unfolding f(1) list_all2_map2 list_all2_same using f(2) by blast
next
  assume a: "session (st w) = Some sess \<and> status sess = Waiting \<and> isHost w \<and> songs (st w) \<noteq> []
       \<and> filter (\<lambda>r. sess_id r = sess_id sess) (sessions (db w)) = [row]
       \<and> (\<forall>k. 0 \<le> rnd k \<and> rnd k < 1)"
  let ?p = "no_updates\<lparr>upd_status := Some Playing, upd_current_song_index := Some 0,
                         upd_current_song_started_at := Some now\<rparr>"
  let ?sh = "fisher_yates rnd (songs (st w))"
  let ?w1 = "snd (reorderSongs ?sh w)"
  let ?w' = "handleStartSession rnd now w"
  let ?F = "\<lambda>r. case map_of (rev (map (\<lambda>(sg, index). (song_id sg, int index))
                                      (zip ?sh [0..<length ?sh]))) (song_id r) of
                  None \<Rightarrow> r | Some p \<Rightarrow> r\<lparr>position := p\<rparr>"
  have np: "status sess \<noteq> Playing" using a by simp
  have h: "?w' = snd (updateSession ?p now ?w1)"
    using a start_run [of w sess rnd now] np by simp
  have st1: "st ?w1 = (st w)\<lparr>songs := ?sh\<rparr>" and db1: "sessions (db ?w1) = sessions (db w)"
    using reorderSongs_result [of ?sh w] by simp_all
  have s1: "session (st ?w1) = Some sess" using a st1 by simp
  have f1: "filter (\<lambda>r. sess_id r = sess_id sess) (sessions (db ?w1)) = [row]"
    using a db1 by simp
  have nf: "upd_status ?p \<noteq> Some Finished" by (simp add: no_updates_def)
  have patch: "apply_patch row (?p\<lparr>upd_last_activity_at := Some now\<rparr>)
      = row\<lparr>status := Playing, current_song_index := Some 0,
            current_song_started_at := Some now, last_activity_at := Some now\<rparr>"
    by (simp add: apply_patch_def no_updates_def)
  have msh: "mset ?sh = mset (songs (st w))"
    using a mset_fisher_yates [of rnd "songs (st w)"] by simp
  then have lsh: "length ?sh = length (songs (st w))"
    by (metis size_mset)
  have tbl: "songs_tbl (db ?w') = map ?F (songs_tbl (db w))"
    using h updateSession_keeps(1) [of ?p now ?w1] reorderSongs_tbl [of ?sh w] by simp
  show "songs (st ?w') = ?sh"
    using h updateSession_keeps(2) [OF nf, of now ?w1] st1 by simp
  then show "mset (songs (st ?w')) = mset (songs (st w))"
    using msh by simp
  show "session (st ?w')
              = Some (row\<lparr>status := Playing, current_song_index := Some 0,
                           current_song_started_at := Some now, last_activity_at := Some now\<rparr>)"
    using updateSession_row [OF s1 f1, of ?p now] h patch by simp
  show "filter (\<lambda>r. sess_id r = sess_id sess) (sessions (db ?w'))
              = [row\<lparr>status := Playing, current_song_index := Some 0,
                      current_song_started_at := Some now, last_activity_at := Some now\<rparr>]"
    using updateSession_row [OF s1 f1, of ?p now] h patch by simp
  have "(\<lambda>r. (?F r)\<lparr>position := 0\<rparr>) = (\<lambda>r. r\<lparr>position := 0\<rparr>)"
    by (rule ext) (simp split: option.splits)
  then show "map (\<lambda>r. r\<lparr>position := 0\<rparr>) (songs_tbl (db ?w'))
              = map (\<lambda>r. r\<lparr>position := 0\<rparr>) (songs_tbl (db w))"
    unfolding tbl map_map comp_def by (rule arg_cong)
  {
    assume d: "distinct (map song_id (songs (st w)))"
    have "mset (map song_id ?sh) = mset (map song_id (songs (st w)))"
      using msh by (metis mset_map)
    then have dsh: "distinct (map song_id ?sh)"
      using d mset_eq_imp_distinct_iff by blast
    show "\<forall>i < length (songs (st w)). \<forall>r \<in> set (songs_tbl (db ?w')).
            song_id r = song_id (?sh ! i) \<longrightarrow> position r = int i"
    proof (intro allI impI ballI)
      fix i r
      assume i: "i < length (songs (st w))" and r: "r \<in> set (songs_tbl (db ?w'))"
         and e: "song_id r = song_id (?sh ! i)"
      from r obtain r0 where r0: "r0 \<in> set (songs_tbl (db w))" "r = ?F r0"
        unfolding tbl by auto
      have id0: "song_id (?F r0) = song_id r0"
        by (simp split: option.splits)
      have "map_of (rev (map (\<lambda>(sg, index). (song_id sg, int index))
                                      (zip ?sh [0..<length ?sh]))) (song_id r0) = Some (int i)"
        using map_of_positions [OF dsh, of i] i lsh e r0(2) id0 by simp
      then show "position r = int i"
        using r0(2) by simp
    qed
  }
  {
    assume s: "distinct (map song_id (songs_tbl (db w)))
               \<and> mset (filter (\<lambda>r. song_session_id r = sess_id sess) (songs_tbl (db w)))
                    = mset (songs (st w))"
    then have m: "mset (filter (\<lambda>r. song_session_id r = sess_id sess) (songs_tbl (db w)))
                    = mset ?sh"
      using msh by simp
    show "select_songs (db ?w') (sess_id sess)
                 = map (\<lambda>(s, i). s\<lparr>position := int i\<rparr>)
                       (zip ?sh [0..<length (songs (st w))])"
      using stored_order_after_reorder [of "songs_tbl (db w)" "sess_id sess" ?sh] s m
      unfolding select_songs_def tbl lsh [symmetric] by simp
  }
qed


theorem start_session_transition_witness:
  "songs (st (world_of sess_waiting [] pA)) = []
   \<and> handleStartSession (\<lambda>k. 0) 5000 (world_of sess_waiting [] pA) = world_of sess_waiting [] pA
   \<and> \<not> isHost (world_of sess_waiting [song1, song2] pB)
   \<and> handleStartSession (\<lambda>k. 0) 5000 (world_of sess_waiting [song1, song2] pB)
       = world_of sess_waiting [song1, song2] pB
   \<and> session (st (world_of sess_waiting [song1, song2] pA)) = Some sess_waiting
   \<and> status sess_waiting = Waiting \<and> isHost (world_of sess_waiting [song1, song2] pA)
   \<and> songs (st (world_of sess_waiting [song1, song2] pA)) \<noteq> []
   \<and> filter (\<lambda>r. sess_id r = sess_id sess_waiting)
        (sessions (db (world_of sess_waiting [song1, song2] pA))) = [sess_waiting]
   \<and> (\<forall>k::nat. (0::real) \<le> 0 \<and> (0::real) < 1)
   \<and> distinct (map song_id (songs (st (world_of sess_waiting [song1, song2] pA))))
   \<and> distinct (map song_id (songs_tbl (db (world_of sess_waiting [song1, song2] pA))))
   \<and> mset (filter (\<lambda>r. song_session_id r = sess_id sess_waiting)
              (songs_tbl (db (world_of sess_waiting [song1, song2] pA))))
       = mset (songs (st (world_of sess_waiting [song1, song2] pA)))
   \<and> songs (st (handleStartSession (\<lambda>k. 0) 5000 (world_of sess_waiting [song1, song2] pA)))
       = [song2, song1]
   \<and> session (st (handleStartSession (\<lambda>k. 0) 5000 (world_of sess_waiting [song1, song2] pA)))
       = Some (sess_waiting\<lparr>status := Playing, current_song_index := Some 0,
                 current_song_started_at := Some 5000, last_activity_at := Some 5000\<rparr>)
   \<and> select_songs (db (handleStartSession (\<lambda>k. 0) 5000 (world_of sess_waiting [song1, song2] pA)))
        (sess_id sess_waiting)
       = [song2\<lparr>position := 0\<rparr>, song1\<lparr>position := 1\<rparr>]
   \<and> filter (\<lambda>r. sess_id r = sess_id sess_waiting)
        (sessions (db (perform (StartSession (\<lambda>k. 0)) 5000
                         (world_of sess_waiting [song1, song2] pA))))
       = [sess_waiting\<lparr>status := Playing, current_song_index := Some 0,
                 current_song_started_at := Some 5000, last_activity_at := Some 5000\<rparr>]"
proof -
  let ?w = "world_of sess_waiting [song1, song2] pA"
  have g: "songs (st (world_of sess_waiting [] pA)) = []"
      "\<not> isHost (world_of sess_waiting [song1, song2] pB)"
    by (simp_all add: world_of_def isHost_def pB_def)
  have h: "session (st ?w) = Some sess_waiting" "status sess_waiting = Waiting" "isHost ?w"
      "songs (st ?w) \<noteq> []"
      "filter (\<lambda>r. sess_id r = sess_id sess_waiting) (sessions (db ?w)) = [sess_waiting]"
      "\<forall>k::nat. (0::real) \<le> 0 \<and> (0::real) < 1"
    by (simp_all add: world_of_def isHost_def pA_def sess_waiting_def)
  have s: "distinct (map song_id (songs (st ?w)))"
      "distinct (map song_id (songs_tbl (db ?w)))"
      "mset (filter (\<lambda>r. song_session_id r = sess_id sess_waiting) (songs_tbl (db ?w)))
         = mset (songs (st ?w))"
    by (simp_all add: world_of_def song1_def song2_def sess_waiting_def)
  have e: "fisher_yates (\<lambda>k. 0) (songs (st ?w)) = [song2, song1]"
      "length (songs (st ?w)) = 2"
    by (simp_all add: world_of_def fisher_yates_def swap_def)
  have u: "[0..<2] = [0, Suc 0]"
    by (simp add: upt_rec)
  show ?thesis
    using start_session_transition [of "world_of sess_waiting [] pA" "\<lambda>k. 0" 5000 sess_waiting sess_waiting]
          start_session_transition [of "world_of sess_waiting [song1, song2] pB" "\<lambda>k. 0" 5000 sess_waiting
                sess_waiting]
          start_session_transition [of ?w "\<lambda>k. 0" 5000 sess_waiting sess_waiting] g h s e u
    by simp
qed


section \<open>Casting votes\<close>

text \<open>
  C7. When the participant's skip vote for the song is already in the store at the
  existence check, or when another client's insert of the same vote lands between the check
  and this client's insert, \<^verbatim>\<open>addSkipVote\<close> resolves without an error, changes neither the
  client's state nor what it has published, writes nothing to the store, and exactly one
  row for the (session, song, participant) key persists. The store keeps the key unique, also
  under the writes of the other clients.
\<close>

theorem addSkipVote_duplicate_noop:
  assumes "session (st w) = Some sess" and "currentParticipant (st w) = Some cp"
      and "skip_votes_unique (db w)" and "skip_votes_unique (others (db w))"
      and "skip_vote_rows (db w) (sess_id sess) songId (part_id cp) \<noteq> []
           \<or> skip_vote_rows (others (db w)) (sess_id sess) songId (part_id cp) \<noteq> []"
  shows "fst (addSkipVote others songId new_id now w) = None
       \<and> st (snd (addSkipVote others songId new_id now w)) = st w
       \<and> outbox (snd (addSkipVote others songId new_id now w)) = outbox w
       \<and> (db (snd (addSkipVote others songId new_id now w)) = db w
          \<or> db (snd (addSkipVote others songId new_id now w)) = others (db w))
       \<and> length (skip_vote_rows (db (snd (addSkipVote others songId new_id now w)))
                   (sess_id sess) songId (part_id cp)) = 1"
proof (cases "skip_vote_rows (db w) (sess_id sess) songId (part_id cp) = []")
  case False
  then have r: "addSkipVote others songId new_id now w = (None, issue (Select ''skip_votes'') w)"
    using assms(1,2) by (simp add: addSkipVote_def Let_def select_skip_vote_ids_def)
  have "length (skip_vote_rows (db w) (sess_id sess) songId (part_id cp)) = 1"
    using False skip_vote_rows_le_1 [OF assms(3), of "sess_id sess" songId "part_id cp"]
    by (cases "skip_vote_rows (db w) (sess_id sess) songId (part_id cp)") simp_all
  then show ?thesis using r by (simp add: issue_def)
next
  case True
  then have ex: "skip_vote_rows (others (db w)) (sess_id sess) songId (part_id cp) \<noteq> []"
    using assms(5) by simp
  then have r: "addSkipVote others songId new_id now w
      = (None, issue (Insert ''skip_votes'')
                 ((issue (Select ''skip_votes'') w)\<lparr>db := others (db w)\<rparr>))"
    using assms(1,2) True
    by (simp add: addSkipVote_def Let_def select_skip_vote_ids_def insert_skip_vote_def issue_def)
  have "length (skip_vote_rows (others (db w)) (sess_id sess) songId (part_id cp)) = 1"
    using ex skip_vote_rows_le_1 [OF assms(4), of "sess_id sess" songId "part_id cp"]
    by (cases "skip_vote_rows (others (db w)) (sess_id sess) songId (part_id cp)") simp_all
  then show ?thesis using r by (simp add: issue_def)
qed


theorem addSkipVote_duplicate_noop_witness:
  "session (st world_voted) = Some sess_infinite \<and> currentParticipant (st world_voted) = Some pA
   \<and> skip_votes_unique (db world_voted) \<and> skip_votes_unique (id (db world_voted))
   \<and> skip_vote_rows (db world_voted) (sess_id sess_infinite) ''g1'' (part_id pA) \<noteq> []
   \<and> fst (addSkipVote id ''g1'' ''v8'' 5000 world_voted) = None
   \<and> skip_vote_rows (db (world_of sess_infinite [song1] pA)) (sess_id sess_infinite) ''g1''
        (part_id pA) = []
   \<and> skip_votes_unique (db (world_of sess_infinite [song1] pA))
   \<and> skip_votes_unique (other_tab (db (world_of sess_infinite [song1] pA)))
   \<and> skip_vote_rows (other_tab (db (world_of sess_infinite [song1] pA)))
        (sess_id sess_infinite) ''g1'' (part_id pA) \<noteq> []
   \<and> fst (addSkipVote other_tab ''g1'' ''v8'' 5000 (world_of sess_infinite [song1] pA)) = None
   \<and> length (skip_vote_rows
        (db (snd (addSkipVote other_tab ''g1'' ''v8'' 5000 (world_of sess_infinite [song1] pA))))
        (sess_id sess_infinite) ''g1'' (part_id pA)) = 1"
proof -
  let ?w = "world_of sess_infinite [song1] pA"
  have a1: "session (st world_voted) = Some sess_infinite"
    and a2: "currentParticipant (st world_voted) = Some pA"
    and a3: "skip_votes_unique (db world_voted)"
    and a4: "skip_votes_unique (id (db world_voted))"
    and a5: "skip_vote_rows (db world_voted) (sess_id sess_infinite) ''g1'' (part_id pA) \<noteq> []"
    by (simp_all add: world_voted_def world_of_def skip_votes_unique_def skip_vote_rows_def
          voteA_def sess_infinite_def pA_def)
  have b1: "session (st ?w) = Some sess_infinite"
    and b2: "currentParticipant (st ?w) = Some pA"
    and b3: "skip_votes_unique (db ?w)"
    and b4: "skip_votes_unique (other_tab (db ?w))"
    and b5: "skip_vote_rows (other_tab (db ?w)) (sess_id sess_infinite) ''g1'' (part_id pA) \<noteq> []"
    and b6: "skip_vote_rows (db ?w) (sess_id sess_infinite) ''g1'' (part_id pA) = []"
    by (simp_all add: world_of_def other_tab_def skip_votes_unique_def skip_vote_rows_def
          insert_skip_vote_def sess_infinite_def pA_def Let_def)
  show ?thesis
    using addSkipVote_duplicate_noop [of world_voted sess_infinite pA id "''g1''" "''v8''" 5000]
          addSkipVote_duplicate_noop [of ?w sess_infinite pA other_tab "''g1''" "''v8''" 5000]
          a1 a2 a3 a4 a5 b1 b2 b3 b4 b5 b6
    by simp
qed


text \<open>
  C3. The code on a second cast: Ben rates the first song with five stars twice. The first
  \<^verbatim>\<open>addScore\<close> resolves; the second is rejected by the uniqueness constraint, and
  \<^verbatim>\<open>addScore\<close> throws the store's error \<^verbatim>\<open>23505\<close> to its caller. Exactly one score row
  for (song, participant) is in the store afterwards.
\<close>

theorem addScore_second_cast_throws:
  "fst (addScore vote5 ''c1'' 5000 (world_of sess_infinite [song1] pB)) = None
   \<and> fst (addScore vote5 ''c2'' 6000
            (snd (addScore vote5 ''c1'' 5000 (world_of sess_infinite [song1] pB))))
       = Some (StoreError ''23505'')
   \<and> length (score_rows
        (db (snd (addScore vote5 ''c2'' 6000
            (snd (addScore vote5 ''c1'' 5000 (world_of sess_infinite [song1] pB))))))
        ''g1'' ''pB'') = 1"
proof -
  let ?w = "world_of sess_infinite [song1] pB"
  have e: "score_rows (db ?w) (score_song_id vote5) (score_participant_id vote5) = []"
    by (simp add: score_rows_def world_of_def)
  have t: "scores_tbl (db ?w) = []" by (simp add: world_of_def)
  note f = addScore_fresh [OF e, of "''c1''" 5000]
  have n: "score_rows (db (snd (addScore vote5 ''c1'' 5000 ?w)))
             (score_song_id vote5) (score_participant_id vote5) \<noteq> []"
    using f t by (simp add: score_rows_def)
  have l: "length (score_rows (db (snd (addScore vote5 ''c1'' 5000 ?w))) ''g1'' ''pB'') = 1"
    using f t by (simp add: score_rows_def vote5_def)
  show ?thesis
    using f l addScore_duplicate [OF n, of "''c2''" 6000] by (simp add: issue_def)
qed


section \<open>Adding a song\<close>

text \<open>
  C9 (as amended). The add-song path rejects a candidate, inserting nothing, when its
  duration exceeds 360 seconds (an alert), when the client has no session or no current
  participant, and when a song with the same source id is in the client's copy of the queue
  (the page throws, the dialog alerts). Every other candidate is inserted into the store's
  queue, under the identifier the store assigns, and is in the client's queue afterwards.
  The store is not consulted: when the client's copy holds every source id of the store's
  queue for the session, a candidate whose source id is in the store's queue is rejected.
\<close>

theorem add_song_gate:
  "(sr_duration sr > 360 \<longrightarrow>
      dialog_handleAddSong sr new_id now w
        = w\<lparr>alerts := alerts w @ [TooLong (sr_duration sr)]\<rparr>)
   \<and> (sr_duration sr \<le> 360 \<and> session (st w) = None \<longrightarrow>
      dialog_handleAddSong sr new_id now w
        = w\<lparr>alerts := alerts w @ [FailedToAdd ''No session found'']\<rparr>)
   \<and> (sr_duration sr \<le> 360 \<and> session (st w) = Some sess \<and> currentParticipant (st w) = None \<longrightarrow>
      dialog_handleAddSong sr new_id now w
        = w\<lparr>alerts := alerts w @ [FailedToAdd ''No current participant found'']\<rparr>)
   \<and> (sr_duration sr \<le> 360 \<and> session (st w) = Some sess \<and> currentParticipant (st w) = Some cp
       \<and> filter (\<lambda>s. source_id s = sr_id sr) (songs (st w)) \<noteq> [] \<longrightarrow>
      dialog_handleAddSong sr new_id now w
        = w\<lparr>alerts := alerts w @ [FailedToAdd ''This song is already in the queue'']\<rparr>)
   \<and> (sr_duration sr \<le> 360 \<and> session (st w) = Some sess \<and> currentParticipant (st w) = Some cp
       \<and> filter (\<lambda>s. source_id s = sr_id sr) (songs (st w)) = [] \<longrightarrow>
      songs_tbl (db (dialog_handleAddSong sr new_id now w))
        = songs_tbl (db w)
           @ [\<lparr>song_id = new_id, song_session_id = sess_id sess, title = sr_title sr,
               artist = sr_artist sr, album_art = Some (sr_thumbnail sr),
               duration = sr_duration sr, source = ''youtube'', source_id = sr_id sr,
               added_by = part_id cp, position = int (length (songs (st w)))\<rparr>]
      \<and> \<lparr>song_id = new_id, song_session_id = sess_id sess, title = sr_title sr,
          artist = sr_artist sr, album_art = Some (sr_thumbnail sr),
          duration = sr_duration sr, source = ''youtube'', source_id = sr_id sr,
          added_by = part_id cp, position = int (length (songs (st w)))\<rparr>
           \<in> set (songs (st (dialog_handleAddSong sr new_id now w)))
      \<and> alerts (dialog_handleAddSong sr new_id now w) = alerts w)
   \<and> (session (st w) = Some sess
       \<and> source_id ` set (select_songs (db w) (sess_id sess)) \<subseteq> source_id ` set (songs (st w))
       \<and> sr_id sr \<in> source_id ` set (select_songs (db w) (sess_id sess)) \<longrightarrow>
      songs_tbl (db (dialog_handleAddSong sr new_id now w)) = songs_tbl (db w))"
proof (intro conjI impI)
  assume "sr_duration sr > 360"
  then show "dialog_handleAddSong sr new_id now w
              = w\<lparr>alerts := alerts w @ [TooLong (sr_duration sr)]\<rparr>"
    by (simp add: dialog_handleAddSong_def MAX_DURATION_def)
next
  assume "sr_duration sr \<le> 360 \<and> session (st w) = None"
  then show "dialog_handleAddSong sr new_id now w
        = w\<lparr>alerts := alerts w @ [FailedToAdd ''No session found'']\<rparr>"
    by (simp add: dialog_handleAddSong_def MAX_DURATION_def page_handleAddSong_def
          error_message_def)
next
  assume "sr_duration sr \<le> 360 \<and> session (st w) = Some sess \<and> currentParticipant (st w) = None"
  then show "dialog_handleAddSong sr new_id now w
        = w\<lparr>alerts := alerts w @ [FailedToAdd ''No current participant found'']\<rparr>"
    by (simp add: dialog_handleAddSong_def MAX_DURATION_def page_handleAddSong_def
          error_message_def)
next
  assume "sr_duration sr \<le> 360 \<and> session (st w) = Some sess \<and> currentParticipant (st w) = Some cp
       \<and> filter (\<lambda>s. source_id s = sr_id sr) (songs (st w)) \<noteq> []"
  then show "dialog_handleAddSong sr new_id now w
              = w\<lparr>alerts := alerts w @ [FailedToAdd ''This song is already in the queue'']\<rparr>"
    by (simp add: dialog_handleAddSong_def MAX_DURATION_def page_handleAddSong_def
          error_message_def)
next
  assume s: "session (st w) = Some sess
       \<and> source_id ` set (select_songs (db w) (sess_id sess)) \<subseteq> source_id ` set (songs (st w))
       \<and> sr_id sr \<in> source_id ` set (select_songs (db w) (sess_id sess))"
  then have "sr_id sr \<in> source_id ` set (songs (st w))" by blast
  then have dup: "filter (\<lambda>s. source_id s = sr_id sr) (songs (st w)) \<noteq> []"
    by (auto simp: filter_empty_conv)
  show "songs_tbl (db (dialog_handleAddSong sr new_id now w)) = songs_tbl (db w)"
    using s dup
    by (simp add: dialog_handleAddSong_def MAX_DURATION_def page_handleAddSong_def
          split: option.splits)
next
  assume a: "sr_duration sr \<le> 360 \<and> session (st w) = Some sess
       \<and> currentParticipant (st w) = Some cp
       \<and> filter (\<lambda>s. source_id s = sr_id sr) (songs (st w)) = []"
  let ?sg = "\<lparr>song_id = [], song_session_id = sess_id sess, title = sr_title sr,
               artist = sr_artist sr, album_art = Some (sr_thumbnail sr),
               duration = sr_duration sr, source = ''youtube'', source_id = sr_id sr,
               added_by = part_id cp, position = int (length (songs (st w)))\<rparr>"
  have page: "page_handleAddSong sr new_id now w = addSong ?sg new_id now w"
    using a by (simp add: page_handleAddSong_def)
  have add: "fst (addSong ?sg new_id now w) = None
     \<and> songs_tbl (db (snd (addSong ?sg new_id now w)))
         = songs_tbl (db w) @ [?sg\<lparr>song_id := new_id\<rparr>]
     \<and> songs (st (snd (addSong ?sg new_id now w)))
         = select_songs (db (snd (addSong ?sg new_id now w))) (sess_id sess)
     \<and> alerts (snd (addSong ?sg new_id now w)) = alerts w"
    using a
    by (simp add: addSong_def insert_song_def Let_def awardKarma_keeps)
  obtain r w1 where rw: "addSong ?sg new_id now w = (r, w1)"
    by (cases "addSong ?sg new_id now w")
  then have d: "dialog_handleAddSong sr new_id now w = w1"
    using a add page by (simp add: dialog_handleAddSong_def MAX_DURATION_def)
  show "songs_tbl (db (dialog_handleAddSong sr new_id now w))
              = songs_tbl (db w)
                 @ [\<lparr>song_id = new_id, song_session_id = sess_id sess, title = sr_title sr,
                     artist = sr_artist sr, album_art = Some (sr_thumbnail sr),
                     duration = sr_duration sr, source = ''youtube'', source_id = sr_id sr,
                     added_by = part_id cp, position = int (length (songs (st w)))\<rparr>]"
    using add rw d by simp
  show "alerts (dialog_handleAddSong sr new_id now w) = alerts w"
    using add rw d by simp
  show "\<lparr>song_id = new_id, song_session_id = sess_id sess, title = sr_title sr,
         artist = sr_artist sr, album_art = Some (sr_thumbnail sr),
         duration = sr_duration sr, source = ''youtube'', source_id = sr_id sr,
         added_by = part_id cp, position = int (length (songs (st w)))\<rparr>
          \<in> set (songs (st (dialog_handleAddSong sr new_id now w)))"
    using add rw d by (simp add: select_songs_def)
qed

theorem add_song_gate_witness:
  "sr_duration (candidate\<lparr>sr_duration := 361\<rparr>) > 360
   \<and> dialog_handleAddSong (candidate\<lparr>sr_duration := 361\<rparr>) ''g9'' 5000
        (world_of sess_waiting [song1] pB)
       = (world_of sess_waiting [song1] pB)\<lparr>alerts := [TooLong 361]\<rparr>
   \<and> sr_duration candidate \<le> 360 \<and> session (st world_unloaded) = None
   \<and> dialog_handleAddSong candidate ''g9'' 5000 world_unloaded
       = world_unloaded\<lparr>alerts := [FailedToAdd ''No session found'']\<rparr>
   \<and> session (st world_guest) = Some sess_waiting \<and> currentParticipant (st world_guest) = None
   \<and> dialog_handleAddSong candidate ''g9'' 5000 world_guest
       = world_guest\<lparr>alerts := [FailedToAdd ''No current participant found'']\<rparr>
   \<and> session (st (world_of sess_waiting [song1] pB)) = Some sess_waiting
   \<and> currentParticipant (st (world_of sess_waiting [song1] pB)) = Some pB
   \<and> sr_duration (candidate\<lparr>sr_id := ''yt1''\<rparr>) \<le> 360
   \<and> filter (\<lambda>s. source_id s = sr_id (candidate\<lparr>sr_id := ''yt1''\<rparr>))
        (songs (st (world_of sess_waiting [song1] pB))) \<noteq> []
   \<and> dialog_handleAddSong (candidate\<lparr>sr_id := ''yt1''\<rparr>) ''g9'' 5000
        (world_of sess_waiting [song1] pB)
       = (world_of sess_waiting [song1] pB)
           \<lparr>alerts := [FailedToAdd ''This song is already in the queue'']\<rparr>
   \<and> filter (\<lambda>s. source_id s = sr_id candidate)
        (songs (st (world_of sess_waiting [song1] pB))) = []
   \<and> map source_id (songs_tbl (db (dialog_handleAddSong candidate ''g9'' 5000
        (world_of sess_waiting [song1] pB)))) = [''yt1'', ''yt9'']
   \<and> source_id ` set (select_songs (db (world_of sess_waiting [song1] pB)) (sess_id sess_waiting))
        \<subseteq> source_id ` set (songs (st (world_of sess_waiting [song1] pB)))
   \<and> sr_id (candidate\<lparr>sr_id := ''yt1''\<rparr>)
        \<in> source_id ` set (select_songs (db (world_of sess_waiting [song1] pB))
                            (sess_id sess_waiting))
   \<and> songs_tbl (db (dialog_handleAddSong (candidate\<lparr>sr_id := ''yt1''\<rparr>) ''g9'' 5000
        (world_of sess_waiting [song1] pB))) = songs_tbl (db (world_of sess_waiting [song1] pB))"
proof -
  let ?w = "world_of sess_waiting [song1] pB"
  have h: "session (st ?w) = Some sess_waiting" "currentParticipant (st ?w) = Some pB"
      "session (st world_unloaded) = None"
      "session (st world_guest) = Some sess_waiting" "currentParticipant (st world_guest) = None"
    by (simp_all add: world_of_def world_unloaded_def world_guest_def)
  have c: "sr_duration (candidate\<lparr>sr_duration := 361\<rparr>) > 360"
    "sr_duration (candidate\<lparr>sr_id := ''yt1''\<rparr>) \<le> 360"
    "filter (\<lambda>s. source_id s = sr_id (candidate\<lparr>sr_id := ''yt1''\<rparr>)) (songs (st ?w)) \<noteq> []"
    "sr_duration candidate \<le> 360"
    "filter (\<lambda>s. source_id s = sr_id candidate) (songs (st ?w)) = []"
    by (simp_all add: candidate_def world_of_def song1_def)
  have y: "source_id ` set (select_songs (db ?w) (sess_id sess_waiting))
             \<subseteq> source_id ` set (songs (st ?w))"
    "sr_id (candidate\<lparr>sr_id := ''yt1''\<rparr>)
        \<in> source_id ` set (select_songs (db ?w) (sess_id sess_waiting))"
    by (simp_all add: world_of_def select_songs_def song1_def sess_waiting_def candidate_def)
  have e: "alerts ?w = []" "map source_id (songs_tbl (db ?w)) = [''yt1'']"
    "sr_id candidate = ''yt9''" "alerts world_unloaded = []" "alerts world_guest = []"
    by (simp_all add: world_of_def song1_def candidate_def world_unloaded_def world_guest_def)
  show ?thesis
    using add_song_gate [of "candidate\<lparr>sr_duration := 361\<rparr>" "''g9''" 5000 ?w sess_waiting pB]
          add_song_gate [of candidate "''g9''" 5000 world_unloaded sess_waiting pB]
          add_song_gate [of candidate "''g9''" 5000 world_guest sess_waiting pB]
          add_song_gate [of "candidate\<lparr>sr_id := ''yt1''\<rparr>" "''g9''" 5000 ?w sess_waiting pB]
          add_song_gate [of candidate "''g9''" 5000 ?w sess_waiting pB]
          h c y e
    by simp
qed


text \<open>
  The claim as first stated fails twice. A client whose copy of the queue has not yet
  received the first song adds a candidate with the source id of that song, and the store's
  queue then holds the source id twice. A client without a current participant has a short
  candidate that is in no queue rejected.
\<close>

theorem stale_queue_admits_duplicate:
  "sr_duration (candidate\<lparr>sr_id := ''yt1''\<rparr>) \<le> 360
   \<and> source_id song1 = sr_id (candidate\<lparr>sr_id := ''yt1''\<rparr>)
   \<and> select_songs (db world_stale) ''s1'' = [song1]
   \<and> map source_id (songs_tbl (db (dialog_handleAddSong (candidate\<lparr>sr_id := ''yt1''\<rparr>) ''g9''
        5000 world_stale))) = [''yt1'', ''yt1'']
   \<and> sr_duration candidate \<le> 360
   \<and> filter (\<lambda>s. source_id s = sr_id candidate) (songs_tbl (db world_guest)) = []
   \<and> filter (\<lambda>s. source_id s = sr_id candidate) (songs (st world_guest)) = []
   \<and> dialog_handleAddSong candidate ''g9'' 5000 world_guest
       = world_guest\<lparr>alerts := [FailedToAdd ''No current participant found'']\<rparr>"
  by (simp add: candidate_def song1_def world_stale_def world_guest_def world_of_def
        select_songs_def sess_waiting_def dialog_handleAddSong_def MAX_DURATION_def
        page_handleAddSong_def addSong_def insert_song_def awardKarma_def Let_def
        insert_karma_history_def update_participant_karma_def pA_def pB_def issue_def send_def
        error_message_def)



end
